theory Spec2Isabelle
  imports Main "HOL-Library.Char_ord" "HOL-Library.List_Lexorder"
begin

section \<open>The records of the store\<close>

text \<open>
  The mapped classes \<^verbatim>\<open>HouseModel\<close> and \<^verbatim>\<open>PartModel\<close> of
  \<^verbatim>\<open>house.py\<close>. The \<^verbatim>\<open>id\<close> column is assigned by the store and read by
  no operation of the module; it is left out, and a table is the list of its rows in
  insertion order. \<^verbatim>\<open>url\<close> and \<^verbatim>\<open>branch\<close> are \<^verbatim>\<open>None\<close> for a
  local house. \<^verbatim>\<open>ConfigModel\<close> is read and written by \<^verbatim>\<open>setup_house\<close>
  alone, which is not part of this development: the cache directory it sets is a field
  of the manager.

  A \<^typ>\<open>string\<close> stands for a Python \<^verbatim>\<open>str\<close> in its UTF-8 encoding, one
  \<^typ>\<open>char\<close> per byte. Concatenation, comparison, splitting on an ASCII character
  and the test for an ASCII prefix are the same on the encoding as on the code points;
  the order of the encodings is the order of the code points.
\<close>

record HouseModel =
  name :: string
  house_type :: string
  local :: string
  url :: "string option"
  branch :: "string option"

text \<open>
  The three columns of a Part record that the scanner fills from a loaded module hold
  whatever object the module's code produced; nothing checks it before the row is
  written. Such an object is kept as what the store makes of it: a text (a
  \<^verbatim>\<open>str\<close>, or a number, which a column of text affinity stores as text), a blob
  (a \<^verbatim>\<open>bytes\<close>), \<^verbatim>\<open>NULL\<close> (for \<^verbatim>\<open>None\<close>), or an object that
  \<^verbatim>\<open>sqlite3\<close> cannot bind to a statement.
\<close>

datatype colval = Text string | Blob string | Null | Unbindable

record PartModel =
  house_name :: string
  part :: string
  name :: string
  author :: colval
  version :: colval
  doc :: colval
  "module_name" :: string

record database =
  houses :: "HouseModel list"
  parts :: "PartModel list"

section \<open>Exceptions\<close>

text \<open>
  One type for every exception that can travel through the module: its own five
  classes, the check error of \<^verbatim>\<open>checkif\<close>, the errors of the collaborators, and
  the exceptions of foreign code (a loaded module, its factory), which may be of any
  class, the module's own included. \<^verbatim>\<open>BaseOnly\<close> stands for an exception that
  derives from \<^verbatim>\<open>BaseException\<close> and not from \<^verbatim>\<open>Exception\<close>
  (\<^verbatim>\<open>KeyboardInterrupt\<close>, \<^verbatim>\<open>SystemExit\<close>); \<^verbatim>\<open>OtherException\<close> for any
  other class that derives from \<^verbatim>\<open>Exception\<close>. The message texts of the source are
  not ASCII; a message is represented by a constructor that keeps the values formatted
  into it.
\<close>

datatype cause = NotInRepository | CheckPartPath | NotInsideHouse string

datatype check_message = HouseNotExist string | PathNotExist string

datatype runtime_message = CloneFailed "string option" | CannotRemove string

datatype error =
    HouseNameRepeatError string
  | HouseNotFoundError string
  | ModuleConflictError string string string
  | PartNotFoundError string cause
  | PartNameError string
  | HKUCheckError check_message
  | RuntimeError runtime_message
  | NotADirectoryError string
  | IntegrityError string
  | InterfaceError
  | PendingRollbackError
  | ModuleNotFoundError string
  | AttributeError
  | TypeError
  | OtherException string
  | BaseOnly string

text \<open>\<^verbatim>\<open>except Exception\<close> catches exactly the exceptions for which this holds.\<close>

definition is_Exception :: "error \<Rightarrow> bool" where
  "is_Exception e = (case e of BaseOnly s \<Rightarrow> False | _ \<Rightarrow> True)"

text \<open>
  Modelled from the spec: \<^verbatim>\<open>hikyuu.util.check.checkif\<close> is imported by
  \<^verbatim>\<open>house.py\<close> and is not among the sources. The specification describes every
  use of it as "fails with E if C": when the condition holds the call raises the given
  exception (a check error carrying the message when no exception class is passed),
  otherwise it returns.
\<close>

definition checkif :: "bool \<Rightarrow> error \<Rightarrow> error + unit" where
  "checkif expression exc = (if expression then Inl exc else Inr ())"

section \<open>Strings and paths\<close>

text \<open>
  \<^verbatim>\<open>str.strip()\<close> removes from both ends the characters for which
  \<^verbatim>\<open>str.isspace\<close> holds; these are their UTF-8 encodings (U+0009 to U+000D,
  U+001C to U+0020, U+0085, U+00A0, U+1680, U+2000 to U+200A, U+2028, U+2029, U+202F,
  U+205F, U+3000). \<^verbatim>\<open>bytes.strip()\<close> removes the six ASCII whitespace bytes.
\<close>

definition unicode_whitespace :: "string list" where
  "unicode_whitespace =
     [[CHR 0x09], [CHR 0x0A], [CHR 0x0B], [CHR 0x0C], [CHR 0x0D],
      [CHR 0x1C], [CHR 0x1D], [CHR 0x1E], [CHR 0x1F], [CHR 0x20],
      [CHR 0xC2, CHR 0x85], [CHR 0xC2, CHR 0xA0],
      [CHR 0xE1, CHR 0x9A, CHR 0x80],
      [CHR 0xE2, CHR 0x80, CHR 0x80], [CHR 0xE2, CHR 0x80, CHR 0x81],
      [CHR 0xE2, CHR 0x80, CHR 0x82], [CHR 0xE2, CHR 0x80, CHR 0x83],
      [CHR 0xE2, CHR 0x80, CHR 0x84], [CHR 0xE2, CHR 0x80, CHR 0x85],
      [CHR 0xE2, CHR 0x80, CHR 0x86], [CHR 0xE2, CHR 0x80, CHR 0x87],
      [CHR 0xE2, CHR 0x80, CHR 0x88], [CHR 0xE2, CHR 0x80, CHR 0x89],
      [CHR 0xE2, CHR 0x80, CHR 0x8A],
      [CHR 0xE2, CHR 0x80, CHR 0xA8], [CHR 0xE2, CHR 0x80, CHR 0xA9],
      [CHR 0xE2, CHR 0x80, CHR 0xAF], [CHR 0xE2, CHR 0x81, CHR 0x9F],
      [CHR 0xE3, CHR 0x80, CHR 0x80]]"

definition ascii_whitespace :: "string list" where
  "ascii_whitespace =
     [[CHR 0x09], [CHR 0x0A], [CHR 0x0B], [CHR 0x0C], [CHR 0x0D], [CHR 0x20]]"

text \<open>
  The string without the first of the given sequences it begins with, if there is one.
\<close>

fun drop_one :: "string list \<Rightarrow> string \<Rightarrow> string option" where
  "drop_one [] s = None"
| "drop_one (w # ws) s =
     (if w \<noteq> [] \<and> take (length w) s = w then Some (drop (length w) s) else drop_one ws s)"

text \<open>
  Removing the sequences from the front for as long as there is one. Every step
  removes at least one byte, so the length of the string bounds the number of steps.
\<close>

fun lstrip_steps :: "nat \<Rightarrow> string list \<Rightarrow> string \<Rightarrow> string" where
  "lstrip_steps 0 ws s = s"
| "lstrip_steps (Suc k) ws s =
     (case drop_one ws s of None \<Rightarrow> s | Some r \<Rightarrow> lstrip_steps k ws r)"

definition lstrip_by :: "string list \<Rightarrow> string \<Rightarrow> string" where
  "lstrip_by ws s = lstrip_steps (length s) ws s"

definition rstrip_by :: "string list \<Rightarrow> string \<Rightarrow> string" where
  "rstrip_by ws s = rev (lstrip_by (map rev ws) (rev s))"

definition strip :: "string \<Rightarrow> string" where
  "strip s = rstrip_by unicode_whitespace (lstrip_by unicode_whitespace s)"

definition bytes_strip :: "string \<Rightarrow> string" where
  "bytes_strip s = rstrip_by ascii_whitespace (lstrip_by ascii_whitespace s)"

definition startswith_dot :: "string \<Rightarrow> bool" where
  "startswith_dot s = (case s of [] \<Rightarrow> False | c # cs \<Rightarrow> c = CHR ''.'')"

text \<open>\<^verbatim>\<open>str.split(sep)\<close> with a one-character separator.\<close>

fun split :: "char \<Rightarrow> string \<Rightarrow> string list" where
  "split sep [] = [[]]"
| "split sep (c # cs) =
     (if c = sep then [] # split sep cs
      else (case split sep cs of [] \<Rightarrow> [[c]] | w # ws \<Rightarrow> (c # w) # ws))"

text \<open>\<^verbatim>\<open>os.path.basename\<close> and \<^verbatim>\<open>os.path.dirname\<close> of \<^verbatim>\<open>posixpath\<close>.\<close>

definition basename :: "string \<Rightarrow> string" where
  "basename p = rev (takeWhile (\<lambda>c. c \<noteq> CHR ''/'') (rev p))"

definition dirname :: "string \<Rightarrow> string" where
  "dirname p =
     (let head = rev (dropWhile (\<lambda>c. c \<noteq> CHR ''/'') (rev p))
      in if head \<noteq> [] \<and> \<not> (\<forall>c \<in> set head. c = CHR ''/'')
         then rev (dropWhile (\<lambda>c. c = CHR ''/'') (rev head)) else head)"

section \<open>The world outside the module\<close>

text \<open>
  An object read from a loaded module, as far as the module looks at it: its truth
  value and what its \<^verbatim>\<open>strip()\<close> does. A \<^verbatim>\<open>str\<close> and a \<^verbatim>\<open>bytes\<close>
  strip to themselves without the surrounding whitespace; \<^verbatim>\<open>None\<close> has no
  \<^verbatim>\<open>strip\<close>; any other object carries its truth value and the outcome of its
  \<^verbatim>\<open>strip()\<close>, an exception (\<^verbatim>\<open>AttributeError\<close> when it has no such
  method) or the object returned.
\<close>

datatype pyval = PyStr string | PyBytes string | PyNone | PyObj bool "error + colval"

definition py_strip :: "pyval \<Rightarrow> error + colval" where
  "py_strip v =
     (case v of
        PyStr s \<Rightarrow> Inr (Text (strip s))
      | PyBytes b \<Rightarrow> Inr (Blob (bytes_strip b))
      | PyNone \<Rightarrow> Inl AttributeError
      | PyObj t r \<Rightarrow> r)"

definition py_truth :: "pyval \<Rightarrow> bool" where
  "py_truth v =
     (case v of
        PyStr s \<Rightarrow> s \<noteq> []
      | PyBytes b \<Rightarrow> b \<noteq> []
      | PyNone \<Rightarrow> False
      | PyObj t r \<Rightarrow> t)"

type_synonym kwargs = "(string \<times> string) list"

text \<open>
  The object a factory returns: a component, or an object on which the assignment to
  the attribute \<^verbatim>\<open>name\<close> raises.
\<close>

record part_instance =
  inst_name :: string
  inst_state :: string

datatype returned = Component part_instance | Refusing error

text \<open>
  The value bound to the name \<^verbatim>\<open>part\<close> in a module: its \<^verbatim>\<open>__doc__\<close>, and
  what calling it with keyword arguments does when it is callable.
\<close>

record factory =
  fdoc :: pyval
  fcall :: "(kwargs \<Rightarrow> error + returned) option"

record pymodule =
  mod_author :: "pyval option"
  mod_version :: "pyval option"
  mod_part :: "factory option"
  mod_path0 :: "string option"

datatype import_result = ImportRaises error | Imported pymodule

datatype scandir_result =
    Entries "(string \<times> bool) list"
  | FileNotFoundError
  | ScandirOSError

text \<open>
  The file system and the module loader as the module sees them: \<^verbatim>\<open>os.path.lexists\<close>,
  \<^verbatim>\<open>os.scandir\<close> (the entries as pairs of \<^verbatim>\<open>entry.name\<close> and
  \<^verbatim>\<open>entry.is_dir()\<close>), \<^verbatim>\<open>os.path.abspath\<close>,
  \<^verbatim>\<open>importlib.import_module\<close> (which depends on \<^verbatim>\<open>sys.path\<close>), and the
  absolute path of \<^verbatim>\<open>house.py\<close> itself with its \<^verbatim>\<open>pathlib\<close> parts.
\<close>

record world =
  lexists :: "string \<Rightarrow> bool"
  scandir :: "string \<Rightarrow> scandir_result"
  abspath :: "string \<Rightarrow> string"
  import_module :: "string list \<Rightarrow> string \<Rightarrow> import_result"
  file_abspath :: string
  file_parts :: "string list"

text \<open>
  The two collaborators that change the file system: \<^verbatim>\<open>shutil.rmtree\<close> with the
  handler \<^verbatim>\<open>handle_remove_read_only\<close> (it fails with the path it could not remove)
  and \<^verbatim>\<open>git.Repo.clone_from\<close>. Each returns the file system it leaves behind, also
  when it raises.
\<close>

datatype rmtree_result = Removed world | RemoveFailed string world

datatype clone_result = Cloned world | CloneRaised world

record fetcher =
  rmtree :: "string \<Rightarrow> world \<Rightarrow> rmtree_result"
  clone_from :: "string option \<Rightarrow> string \<Rightarrow> string option \<Rightarrow> world \<Rightarrow> clone_result"

section \<open>The session and the manager\<close>

text \<open>
  The session is created with \<^verbatim>\<open>autoflush=False\<close>: an object passed to
  \<^verbatim>\<open>add\<close> is pending until the next commit, while a query and a bulk
  \<^verbatim>\<open>delete()\<close> work on the rows of the open transaction. When the flush of a
  commit fails, the transaction is rolled back and the session is left inactive: until
  \<^verbatim>\<open>rollback()\<close> is called, which the module never does, every statement and every
  commit on it raises. The manager keeps \<^verbatim>\<open>_session\<close>, the committed rows of the
  store, the cache directory, \<^verbatim>\<open>sys.path\<close>, the records written to the logger and
  the file system. The field \<open>commits\<close> has no counterpart in the source: it lists
  the rows of the store after every commit, in order, so that the commits of an
  operation can be counted.
\<close>

datatype row = HouseRow HouseModel | PartRow PartModel

record txn =
  view :: database
  pending :: "row list"
  inactive :: bool

datatype log_record =
    WarningHousePathMissing string string
  | ErrorMissingPartFile string
  | ErrorCannotImport string
  | ErrorMissingPartFunction string
  | ErrorBuildingPart string error

record manager =
  session :: "txn option"
  committed :: database
  commits :: "database list"
  remote_cache_dir :: string
  sys_path :: "string list"
  logger :: "log_record list"
  fs :: world

type_synonym 'a outcome = "(error + 'a) \<times> manager"

definition new_session :: "manager \<Rightarrow> txn" where
  "new_session x = \<lparr>view = committed x, pending = [], inactive = False\<rparr>"

text \<open>
  Writing the pending rows, in the order in which they were added.
  \<^verbatim>\<open>HouseModel\<close> carries \<^verbatim>\<open>UniqueConstraint('name')\<close>;
  \<^verbatim>\<open>PartModel\<close> has no constraint, but the \<^verbatim>\<open>INSERT\<close> fails when a column
  holds an object that cannot be bound.
\<close>

definition bindable :: "PartModel \<Rightarrow> bool" where
  "bindable p = (author p \<noteq> Unbindable \<and> version p \<noteq> Unbindable \<and> doc p \<noteq> Unbindable)"

fun flush :: "row list \<Rightarrow> database \<Rightarrow> error + database" where
  "flush [] d = Inr d"
| "flush (HouseRow h # rs) d =
     (if \<exists>g \<in> set (houses d). HouseModel.name g = HouseModel.name h
      then Inl (IntegrityError (HouseModel.name h))
      else flush rs (d\<lparr>houses := houses d @ [h]\<rparr>))"
| "flush (PartRow p # rs) d =
     (if bindable p then flush rs (d\<lparr>parts := parts d @ [p]\<rparr>) else Inl InterfaceError)"

text \<open>
  \<^verbatim>\<open>x._session.commit()\<close>. A flush that fails rolls the transaction back, drops the
  pending objects and leaves the session inactive, and the exception leaves the
  wrapper. A commit on an inactive session raises. With no session the attribute
  access on \<^verbatim>\<open>None\<close> raises.
\<close>

definition commit :: "manager \<Rightarrow> unit outcome" where
  "commit x =
     (case session x of
        None \<Rightarrow> (Inl AttributeError, x)
      | Some t \<Rightarrow>
          if inactive t then (Inl PendingRollbackError, x)
          else
            (case flush (pending t) (view t) of
               Inl e \<Rightarrow>
                 (Inl e, x\<lparr>session := Some \<lparr>view = committed x, pending = [], inactive = True\<rparr>\<rparr>)
             | Inr d \<Rightarrow>
                 (Inr (), x\<lparr>session := Some \<lparr>view = d, pending = [], inactive = False\<rparr>,
                            committed := d, commits := commits x @ [d]\<rparr>)))"

text \<open>
  The decorator \<^verbatim>\<open>dbsession\<close>. \<^verbatim>\<open>_scoped_Session()\<close> hands out the one
  session of the thread and no method assigns \<^verbatim>\<open>_session\<close>, so
  \<^verbatim>\<open>old_session is not x._session\<close> holds exactly when \<^verbatim>\<open>old_session\<close>
  is \<^verbatim>\<open>None\<close>. There is no \<^verbatim>\<open>try\<close>: an exception of the body leaves
  the wrapper before the commit and before \<^verbatim>\<open>_session\<close> is restored.
\<close>

definition dbsession :: "(manager \<Rightarrow> 'a outcome) \<Rightarrow> manager \<Rightarrow> 'a outcome" where
  "dbsession func x =
     (let old_session = session x;
          x1 = (if session x = None then x\<lparr>session := Some (new_session x)\<rparr> else x)
      in case func x1 of
           (Inl e, x2) \<Rightarrow> (Inl e, x2)
         | (Inr result, x2) \<Rightarrow>
             (case commit x2 of
                (Inl e, x3) \<Rightarrow> (Inl e, x3)
              | (Inr u, x3) \<Rightarrow>
                  (Inr result,
                   if old_session = None then x3\<lparr>session := old_session\<rparr> else x3)))"

text \<open>
  The first step of the wrapper as a function of its own, and three kinds of manager:
  one whose session, if any, is not inactive; one on which moreover no added row
  waits for a commit; and one on which moreover the open transaction holds no change
  that is not committed (the state every wrapper leaves when it returns).
\<close>

definition opened :: "manager \<Rightarrow> manager" where
  "opened x = (if session x = None then x\<lparr>session := Some (new_session x)\<rparr> else x)"

definition healthy :: "manager \<Rightarrow> bool" where
  "healthy x = (case session x of None \<Rightarrow> True | Some t \<Rightarrow> \<not> inactive t)"

definition clean :: "manager \<Rightarrow> bool" where
  "clean x = (case session x of None \<Rightarrow> True | Some t \<Rightarrow> pending t = [] \<and> \<not> inactive t)"

definition settled :: "manager \<Rightarrow> bool" where
  "settled x =
     (case session x of
        None \<Rightarrow> True
      | Some t \<Rightarrow> pending t = [] \<and> \<not> inactive t \<and> view t = committed x)"

text \<open>
  The session slot a wrapper leaves behind after a commit of the rows \<open>d\<close>: still
  empty when the manager was idle, the shared session otherwise; and the slot after a
  commit whose flush failed.
\<close>

definition after_commit :: "manager \<Rightarrow> database \<Rightarrow> txn option" where
  "after_commit x d =
     map_option (\<lambda>t. \<lparr>view = d, pending = [], inactive = False\<rparr>) (session x)"

definition after_failure :: "manager \<Rightarrow> txn option" where
  "after_failure x = Some \<lparr>view = committed x, pending = [], inactive = True\<rparr>"

text \<open>
  The session's operations used by the module. Every method body runs inside the
  wrapper, where a session is present. \<^verbatim>\<open>add\<close> only records the object; a query and
  a bulk \<^verbatim>\<open>delete()\<close> run a statement, which raises on an inactive session
  (\<open>statement\<close>).
\<close>

definition session_add :: "row \<Rightarrow> manager \<Rightarrow> manager" where
  "session_add r x =
     x\<lparr>session := map_option (\<lambda>t. t\<lparr>pending := pending t @ [r]\<rparr>) (session x)\<rparr>"

definition the_view :: "manager \<Rightarrow> database" where
  "the_view x = (case session x of None \<Rightarrow> committed x | Some t \<Rightarrow> view t)"

definition statement :: "manager \<Rightarrow> unit outcome" where
  "statement x =
     (case session x of
        None \<Rightarrow> (Inl AttributeError, x)
      | Some t \<Rightarrow> if inactive t then (Inl PendingRollbackError, x) else (Inr (), x))"

definition query_house_first :: "string \<Rightarrow> manager \<Rightarrow> HouseModel option" where
  "query_house_first n x = find (\<lambda>h. HouseModel.name h = n) (houses (the_view x))"

definition query_part_first :: "string \<Rightarrow> manager \<Rightarrow> PartModel option" where
  "query_part_first n x = find (\<lambda>p. PartModel.name p = n) (parts (the_view x))"

definition delete_parts_of :: "string \<Rightarrow> manager \<Rightarrow> manager" where
  "delete_parts_of n x =
     x\<lparr>session := map_option
          (\<lambda>t. t\<lparr>view := (view t)\<lparr>parts := filter (\<lambda>p. house_name p \<noteq> n) (parts (view t))\<rparr>\<rparr>)
          (session x)\<rparr>"

definition delete_house_named :: "string \<Rightarrow> manager \<Rightarrow> manager" where
  "delete_house_named n x =
     x\<lparr>session := map_option
          (\<lambda>t. t\<lparr>view := (view t)\<lparr>houses := filter (\<lambda>h. HouseModel.name h \<noteq> n) (houses (view t))\<rparr>\<rparr>)
          (session x)\<rparr>"

definition and_then :: "'a outcome \<Rightarrow> ('a \<Rightarrow> manager \<Rightarrow> 'b outcome) \<Rightarrow> 'b outcome" where
  "and_then r k = (case r of (Inl e, x) \<Rightarrow> (Inl e, x) | (Inr v, x) \<Rightarrow> k v x)"

definition check :: "bool \<Rightarrow> error \<Rightarrow> manager \<Rightarrow> unit outcome" where
  "check expression exc x = (checkif expression exc, x)"

section \<open>The Part Scanner\<close>

definition part_dict :: "(string \<times> string) list" where
  "part_dict =
     [(''af'', ''part/af''), (''cn'', ''part/cn''), (''ev'', ''part/ev''),
      (''mm'', ''part/mm''), (''pg'', ''part/pg''), (''se'', ''part/se''),
      (''sg'', ''part/sg''), (''sp'', ''part/sp''), (''st'', ''part/st''),
      (''prtflo'', ''prtflo''), (''sys'', ''sys'')]"

definition module_name_of :: "string \<Rightarrow> string \<Rightarrow> string \<Rightarrow> string" where
  "module_name_of base_local part_type entry_name =
     (if part_type \<notin> set [''prtflo'', ''sys'']
      then base_local @ ''.part.'' @ part_type @ ''.'' @ entry_name @ ''.part''
      else base_local @ ''.'' @ part_type @ ''.'' @ entry_name @ ''.part'')"

definition part_name_of :: "string \<Rightarrow> string \<Rightarrow> string \<Rightarrow> string" where
  "part_name_of hname part_type entry_name =
     (if part_type \<notin> set [''prtflo'', ''sys'']
      then hname @ ''.'' @ part_type @ ''.'' @ entry_name
      else hname @ ''.'' @ part_type @ ''.'' @ entry_name)"

text \<open>
  The two conditional expressions of the constructor call:
  \<^verbatim>\<open>part_module.author.strip() if 'author' in module_vars else 'None'\<close> (the same for
  \<^verbatim>\<open>version\<close>) and
  \<^verbatim>\<open>part_module.part.__doc__.strip() if part_module.part.__doc__ else "None"\<close>.
\<close>

definition attr_or_None :: "pyval option \<Rightarrow> error + colval" where
  "attr_or_None a = (case a of None \<Rightarrow> Inr (Text ''None'') | Some v \<Rightarrow> py_strip v)"

definition doc_or_None :: "pyval \<Rightarrow> error + colval" where
  "doc_or_None d = (if py_truth d then py_strip d else Inr (Text ''None''))"

text \<open>
  The constructor call \<^verbatim>\<open>PartModel(...)\<close>; its keyword arguments are evaluated in
  the order in which they are written, \<^verbatim>\<open>author\<close>, \<^verbatim>\<open>version\<close>,
  \<^verbatim>\<open>doc\<close>.
\<close>

definition make_part_model ::
  "HouseModel \<Rightarrow> string \<Rightarrow> string \<Rightarrow> string \<Rightarrow> pymodule \<Rightarrow> factory \<Rightarrow> error + PartModel" where
  "make_part_model house_model part_type pname mname part_module f =
     (case attr_or_None (mod_author part_module) of
        Inl e \<Rightarrow> Inl e
      | Inr a \<Rightarrow>
          (case attr_or_None (mod_version part_module) of
             Inl e \<Rightarrow> Inl e
           | Inr v \<Rightarrow>
               (case doc_or_None (fdoc f) of
                  Inl e \<Rightarrow> Inl e
                | Inr d \<Rightarrow>
                    Inr \<lparr>house_name = HouseModel.name house_model, part = part_type,
                         name = pname, author = a, version = v, doc = d,
                         module_name = mname\<rparr>)))"

definition log_error :: "log_record \<Rightarrow> manager \<Rightarrow> manager" where
  "log_error r x = x\<lparr>logger := logger x @ [r]\<rparr>"

text \<open>
  The body of the loop over the entries of one category directory. The import is
  guarded by a bare \<^verbatim>\<open>except\<close>; the construction of the record and
  \<^verbatim>\<open>add\<close> by \<^verbatim>\<open>except Exception\<close>, so an exception outside
  \<^verbatim>\<open>Exception\<close> leaves the method. The name \<^verbatim>\<open>part\<close> is looked up in the
  module's variables; whether its value can be called is not tested.
\<close>

definition scan_entry ::
  "HouseModel \<Rightarrow> string \<Rightarrow> string \<Rightarrow> string \<Rightarrow> string \<times> bool \<Rightarrow> manager \<Rightarrow> unit outcome" where
  "scan_entry house_model base_local part_type path entry x =
     (let entry_name = fst entry; entry_path = path @ ''/'' @ entry_name
      in if \<not> startswith_dot entry_name \<and> snd entry \<and> entry_name \<noteq> ''__pycache__''
         then
           (let mname = module_name_of base_local part_type entry_name
            in case import_module (fs x) (sys_path x) mname of
                 ImportRaises (ModuleNotFoundError m) \<Rightarrow>
                   (Inr (), log_error (ErrorMissingPartFile entry_path) x)
               | ImportRaises e \<Rightarrow> (Inr (), log_error (ErrorCannotImport entry_path) x)
               | Imported part_module \<Rightarrow>
                   (case mod_part part_module of
                      None \<Rightarrow> (Inr (), log_error (ErrorMissingPartFunction entry_path) x)
                    | Some f \<Rightarrow>
                        (let pname = part_name_of (HouseModel.name house_model) part_type entry_name
                         in case make_part_model house_model part_type pname mname part_module f of
                              Inl e \<Rightarrow>
                                if is_Exception e
                                then (Inr (), log_error (ErrorBuildingPart entry_path e) x)
                                else (Inl e, x)
                            | Inr part_model \<Rightarrow> (Inr (), session_add (PartRow part_model) x))))
         else (Inr (), x))"

fun scan_entries ::
  "HouseModel \<Rightarrow> string \<Rightarrow> string \<Rightarrow> string \<Rightarrow> (string \<times> bool) list \<Rightarrow> manager \<Rightarrow> unit outcome" where
  "scan_entries house_model base_local part_type path [] x = (Inr (), x)"
| "scan_entries house_model base_local part_type path (entry # es) x =
     and_then (scan_entry house_model base_local part_type path entry x)
       (\<lambda>u. scan_entries house_model base_local part_type path es)"

text \<open>
  One turn of the loop over \<^verbatim>\<open>part_dict.items()\<close>: only
  \<^verbatim>\<open>FileNotFoundError\<close> is handled, any other error of \<^verbatim>\<open>os.scandir\<close>
  leaves the method.
\<close>

definition scan_category ::
  "HouseModel \<Rightarrow> string \<Rightarrow> string \<times> string \<Rightarrow> manager \<Rightarrow> unit outcome" where
  "scan_category house_model base_local item x =
     (let part_type = fst item; part_dir = snd item;
          path = local house_model @ ''/'' @ part_dir
      in case scandir (fs x) path of
           Entries es \<Rightarrow> scan_entries house_model base_local part_type path es x
         | FileNotFoundError \<Rightarrow> (Inr (), x)
         | ScandirOSError \<Rightarrow> (Inl (NotADirectoryError path), x))"

fun scan_categories ::
  "HouseModel \<Rightarrow> string \<Rightarrow> (string \<times> string) list \<Rightarrow> manager \<Rightarrow> unit outcome" where
  "scan_categories house_model base_local [] x = (Inr (), x)"
| "scan_categories house_model base_local (item # items) x =
     and_then (scan_category house_model base_local item x)
       (\<lambda>u. scan_categories house_model base_local items)"

definition import_part_to_db_body :: "HouseModel \<Rightarrow> manager \<Rightarrow> unit outcome" where
  "import_part_to_db_body house_model x =
     (let local_dir = local house_model
      in if \<not> lexists (fs x) local_dir
         then (Inr (), log_error (WarningHousePathMissing (HouseModel.name house_model)
                                   (local house_model)) x)
         else (let base_local = basename local_dir
               in scan_categories house_model base_local part_dict x))"

definition import_part_to_db :: "HouseModel \<Rightarrow> manager \<Rightarrow> unit outcome" where
  "import_part_to_db house_model = dbsession (import_part_to_db_body house_model)"

section \<open>The House Registry\<close>

text \<open>
  \<^verbatim>\<open>download_remote_house\<close> reads and writes nothing of the manager, so it is a
  function of the file system; \<^verbatim>\<open>in_world\<close> runs it from a method. The two
  \<^verbatim>\<open>print\<close> calls are left out.
\<close>

definition download_remote_house ::
  "fetcher \<Rightarrow> string \<Rightarrow> string option \<Rightarrow> string option \<Rightarrow> world \<Rightarrow> (error + unit) \<times> world" where
  "download_remote_house git local_dir u b w =
     (case (if lexists w local_dir then rmtree git local_dir w else Removed w) of
        RemoveFailed p w1 \<Rightarrow> (Inl (RuntimeError (CannotRemove p)), w1)
      | Removed w1 \<Rightarrow>
          (case clone_from git u local_dir b w1 of
             CloneRaised w2 \<Rightarrow> (Inl (RuntimeError (CloneFailed u)), w2)
           | Cloned w2 \<Rightarrow> (Inr (), w2)))"

definition in_world :: "(world \<Rightarrow> (error + 'a) \<times> world) \<Rightarrow> manager \<Rightarrow> 'a outcome" where
  "in_world f x = (case f (fs x) of (r, w) \<Rightarrow> (r, x\<lparr>fs := w\<rparr>))"

text \<open>
  \<^verbatim>\<open>add_remote_house\<close>. The second query of the source (by url and branch) only
  assigns a variable that is overwritten before it is read; it runs a statement all
  the same.
\<close>

definition add_remote_house_body ::
  "fetcher \<Rightarrow> string \<Rightarrow> string \<Rightarrow> string \<Rightarrow> manager \<Rightarrow> unit outcome" where
  "add_remote_house_body git hname u b x =
     and_then (statement x)
       (\<lambda>_ x. and_then (check (query_house_first hname x \<noteq> None) (HouseNameRepeatError hname) x)
          (\<lambda>_ x. and_then (statement x)
             (\<lambda>_ x. let local_dir = remote_cache_dir x @ ''/'' @ hname
                    in and_then (in_world (download_remote_house git local_dir (Some u) (Some b)) x)
                         (\<lambda>_ x. let record = \<lparr>HouseModel.name = hname, house_type = ''remote'',
                                               local = local_dir, url = Some u, branch = Some b\<rparr>
                                in and_then (import_part_to_db record x)
                                     (\<lambda>_ x. (Inr (), session_add (HouseRow record) x))))))"

definition add_remote_house ::
  "fetcher \<Rightarrow> string \<Rightarrow> string \<Rightarrow> string \<Rightarrow> manager \<Rightarrow> unit outcome" where
  "add_remote_house git hname u b = dbsession (add_remote_house_body git hname u b)"

text \<open>
  \<^verbatim>\<open>add_local_house\<close>. \<^verbatim>\<open>mod_path0\<close> is \<^verbatim>\<open>tmp.__path__[0]\<close>, absent when
  the imported module is not a package.
\<close>

definition add_local_house_body :: "string \<Rightarrow> manager \<Rightarrow> unit outcome" where
  "add_local_house_body path x =
     and_then (check (\<not> lexists (fs x) path) (HKUCheckError (PathNotExist path)) x)
       (\<lambda>_ x. let local_path = abspath (fs x) path; hname = basename local_path
              in and_then (statement x)
                (\<lambda>_ x. and_then (check (query_house_first hname x \<noteq> None) (HouseNameRepeatError hname) x)
                   (\<lambda>_ x. let x1 = x\<lparr>sys_path := sys_path x @ [dirname path]\<rparr>
                          in case import_module (fs x1) (sys_path x1) hname of
                               ImportRaises e \<Rightarrow> (Inl e, x1)
                             | Imported tmp \<Rightarrow>
                                 (case mod_path0 tmp of
                                    None \<Rightarrow> (Inl AttributeError, x1)
                                  | Some p0 \<Rightarrow>
                                      and_then (check (p0 \<noteq> local_path)
                                                 (ModuleConflictError hname p0 local_path) x1)
                                        (\<lambda>_ x. let house_model =
                                                     \<lparr>HouseModel.name = hname, house_type = ''local'',
                                                      local = local_path, url = None, branch = None\<rparr>
                                               in and_then (import_part_to_db house_model x)
                                                    (\<lambda>_ x. (Inr (), session_add (HouseRow house_model) x)))))))"

definition add_local_house :: "string \<Rightarrow> manager \<Rightarrow> unit outcome" where
  "add_local_house path = dbsession (add_local_house_body path)"

definition update_house_body :: "fetcher \<Rightarrow> string \<Rightarrow> manager \<Rightarrow> unit outcome" where
  "update_house_body git hname x =
     and_then (statement x)
       (\<lambda>_ x. let found = query_house_first hname x
              in and_then (check (found = None) (HKUCheckError (HouseNotExist hname)) x)
                   (\<lambda>_ x. let x1 = delete_parts_of hname x
                          in case found of
                               None \<Rightarrow> (Inl AttributeError, x1)
                             | Some house_model \<Rightarrow>
                                 and_then (if house_type house_model = ''remote''
                                           then in_world (download_remote_house git (local house_model)
                                                  (url house_model) (branch house_model)) x1
                                           else (Inr (), x1))
                                   (\<lambda>_ x. import_part_to_db house_model x)))"

definition update_house :: "fetcher \<Rightarrow> string \<Rightarrow> manager \<Rightarrow> unit outcome" where
  "update_house git hname = dbsession (update_house_body git hname)"

definition remove_house_body :: "string \<Rightarrow> manager \<Rightarrow> unit outcome" where
  "remove_house_body hname x =
     and_then (statement x)
       (\<lambda>_ x. (Inr (), delete_house_named hname (delete_parts_of hname x)))"

definition remove_house :: "string \<Rightarrow> manager \<Rightarrow> unit outcome" where
  "remove_house hname = dbsession (remove_house_body hname)"

section \<open>The Part Resolver and the read operations\<close>

definition categories :: "string list" where
  "categories = [''af'', ''cn'', ''ev'', ''mm'', ''pg'', ''se'', ''sg'', ''sp'', ''st'',
                 ''prtflo'', ''sys'']"

text \<open>\<^verbatim>\<open>xs[-k]\<close> for \<^verbatim>\<open>k\<close> at most the length of \<^verbatim>\<open>xs\<close>.\<close>

definition from_end :: "'a list \<Rightarrow> nat \<Rightarrow> 'a" where
  "from_end xs k = xs ! (length xs - k)"

definition bad_part_name :: "string \<Rightarrow> bool" where
  "bad_part_name pname =
     (let name_parts = split CHR ''.'' pname
      in if length name_parts < 2 then True else from_end name_parts 2 \<notin> set categories)"

text \<open>
  The house inferred for a name of two segments, from the location of
  \<^verbatim>\<open>house.py\<close> itself (\<^verbatim>\<open>__file__\<close>).
\<close>

definition qualified_name :: "string \<Rightarrow> manager \<Rightarrow> string outcome" where
  "qualified_name pname x =
     (let name_parts = split CHR ''.'' pname
      in if length name_parts = 2
         then (let abs_path = file_abspath (fs x); path_parts = file_parts (fs x);
                   c = NotInsideHouse abs_path
               in if name_parts ! 0 \<in> set [''prtflo'', ''sys'']
                  then and_then (check (length path_parts < 4) (PartNotFoundError pname c) x)
                         (\<lambda>_ x. (Inr (from_end path_parts 4 @ ''.'' @ pname), x))
                  else and_then (check (length path_parts < 5) (PartNotFoundError pname c) x)
                         (\<lambda>_ x. (Inr (from_end path_parts 5 @ ''.'' @ pname), x)))
         else (Inr pname, x))"

text \<open>
  Loading and instantiating the component of a record. Only the import is inside a
  \<^verbatim>\<open>try\<close>, and only \<^verbatim>\<open>ModuleNotFoundError\<close> is turned into
  \<^verbatim>\<open>PartNotFoundError\<close>: every other exception of the import, and every exception of
  the call of \<^verbatim>\<open>part\<close> and of the assignment to \<^verbatim>\<open>part.name\<close>, leaves the
  method as it is. A module without \<^verbatim>\<open>part\<close> gives \<^verbatim>\<open>AttributeError\<close>, a
  \<^verbatim>\<open>part\<close> that cannot be called \<^verbatim>\<open>TypeError\<close>.
\<close>

definition load_part :: "string \<Rightarrow> PartModel \<Rightarrow> kwargs \<Rightarrow> manager \<Rightarrow> part_instance outcome" where
  "load_part part_name part_model kw x =
     (case import_module (fs x) (sys_path x) (module_name part_model) of
        ImportRaises (ModuleNotFoundError m) \<Rightarrow> (Inl (PartNotFoundError part_name CheckPartPath), x)
      | ImportRaises e \<Rightarrow> (Inl e, x)
      | Imported part_module \<Rightarrow>
          (case mod_part part_module of
             None \<Rightarrow> (Inl AttributeError, x)
           | Some f \<Rightarrow>
               (case fcall f of
                  None \<Rightarrow> (Inl TypeError, x)
                | Some call \<Rightarrow>
                    (case call kw of
                       Inl e \<Rightarrow> (Inl e, x)
                     | Inr (Refusing e) \<Rightarrow> (Inl e, x)
                     | Inr (Component p) \<Rightarrow>
                         (Inr (p\<lparr>inst_name := PartModel.name part_model\<rparr>), x)))))"

definition get_part_body :: "string \<Rightarrow> kwargs \<Rightarrow> manager \<Rightarrow> part_instance outcome" where
  "get_part_body pname kw x =
     and_then (check (bad_part_name pname) (PartNameError pname) x)
       (\<lambda>_ x. and_then (qualified_name pname x)
          (\<lambda>part_name x. and_then (statement x)
             (\<lambda>_ x. case query_part_first part_name x of
                      None \<Rightarrow> (Inl (PartNotFoundError part_name NotInRepository), x)
                    | Some part_model \<Rightarrow> load_part part_name part_model kw x)))"

definition get_part :: "string \<Rightarrow> kwargs \<Rightarrow> manager \<Rightarrow> part_instance outcome" where
  "get_part pname kw = dbsession (get_part_body pname kw)"

record part_info =
  info_name :: string
  info_author :: colval
  info_version :: colval
  info_doc :: colval

definition get_part_info_body :: "string \<Rightarrow> manager \<Rightarrow> part_info outcome" where
  "get_part_info_body pname x =
     and_then (statement x)
       (\<lambda>_ x. case query_part_first pname x of
                None \<Rightarrow> (Inl (PartNotFoundError pname NotInRepository), x)
              | Some part_model \<Rightarrow>
                  (Inr \<lparr>info_name = pname, info_author = author part_model,
                        info_version = version part_model, info_doc = doc part_model\<rparr>, x))"

definition get_part_info :: "string \<Rightarrow> manager \<Rightarrow> part_info outcome" where
  "get_part_info pname = dbsession (get_part_info_body pname)"

definition get_house_path_body :: "string \<Rightarrow> manager \<Rightarrow> string outcome" where
  "get_house_path_body hname x =
     and_then (statement x)
       (\<lambda>_ x. case query_house_first hname x of
                None \<Rightarrow> (Inl (HouseNotFoundError hname), x)
              | Some h \<Rightarrow> (Inr (local h), x))"

definition get_house_path :: "string \<Rightarrow> manager \<Rightarrow> string outcome" where
  "get_house_path hname = dbsession (get_house_path_body hname)"

text \<open>
  The query for the names of the houses has no \<^verbatim>\<open>ORDER BY\<close>. The column
  \<^verbatim>\<open>name\<close> is indexed and the store answers the query from the index, so the names
  come in the order of the index, which is the order of their bytes. The columns
  queried by \<^verbatim>\<open>get_part_name_list\<close> have no index: its rows come in the order of
  the table.
\<close>

definition get_house_name_list_body :: "manager \<Rightarrow> string list outcome" where
  "get_house_name_list_body x =
     and_then (statement x)
       (\<lambda>_ x. (Inr (sort (map HouseModel.name (houses (the_view x)))), x))"

definition get_house_name_list :: "manager \<Rightarrow> string list outcome" where
  "get_house_name_list = dbsession get_house_name_list_body"

definition get_part_name_list_body ::
  "string option \<Rightarrow> string option \<Rightarrow> manager \<Rightarrow> string list outcome" where
  "get_part_name_list_body house pt x =
     and_then (statement x)
       (\<lambda>_ x. let results =
                (case (house, pt) of
                   (None, None) \<Rightarrow> parts (the_view x)
                 | (None, Some t) \<Rightarrow> filter (\<lambda>p. part p = t) (parts (the_view x))
                 | (Some h, None) \<Rightarrow> filter (\<lambda>p. house_name p = h) (parts (the_view x))
                 | (Some h, Some t) \<Rightarrow>
                     filter (\<lambda>p. house_name p = h \<and> part p = t) (parts (the_view x)))
              in (Inr (map PartModel.name results), x))"

definition get_part_name_list ::
  "string option \<Rightarrow> string option \<Rightarrow> manager \<Rightarrow> string list outcome" where
  "get_part_name_list house pt = dbsession (get_part_name_list_body house pt)"

text \<open>The records that \<^verbatim>\<open>add_remote_house\<close> and \<^verbatim>\<open>add_local_house\<close> build.\<close>

definition remote_record :: "manager \<Rightarrow> string \<Rightarrow> string \<Rightarrow> string \<Rightarrow> HouseModel" where
  "remote_record x n u b =
     \<lparr>HouseModel.name = n, house_type = ''remote'', local = remote_cache_dir x @ ''/'' @ n,
      url = Some u, branch = Some b\<rparr>"

definition local_record :: "manager \<Rightarrow> string \<Rightarrow> HouseModel" where
  "local_record x path =
     \<lparr>HouseModel.name = basename (abspath (fs x) path), house_type = ''local'',
      local = abspath (fs x) path, url = None, branch = None\<rparr>"

text \<open>
  The rows of one house in a table, and the statement that a step from \<open>x\<close> to
  \<open>x'\<close> kept them, in the committed rows of the store and in the rows that the
  session sees.
\<close>

definition part_rows :: "string \<Rightarrow> database \<Rightarrow> PartModel list" where
  "part_rows k d = filter (\<lambda>p. house_name p = k) (parts d)"

definition house_rows :: "string \<Rightarrow> database \<Rightarrow> HouseModel list" where
  "house_rows k d = filter (\<lambda>h. HouseModel.name h = k) (houses d)"

definition same_rows :: "string \<Rightarrow> manager \<Rightarrow> manager \<Rightarrow> bool" where
  "same_rows k x x' =
     (part_rows k (committed x') = part_rows k (committed x) \<and>
      house_rows k (committed x') = house_rows k (committed x) \<and>
      part_rows k (the_view x') = part_rows k (the_view x) \<and>
      house_rows k (the_view x') = house_rows k (the_view x))"

section \<open>The scan as a function of the world\<close>

text \<open>
  What the Part Scanner comes to, stated without the manager: every candidate entry
  gets one verdict, a log record when it is skipped or the Part record when it is
  registered, unless the construction of its record raises an exception outside
  \<^verbatim>\<open>Exception\<close>, which ends the scan (\<open>aborting\<close>). A scan yields the verdicts
  in the order of the walk, together with the error that ended it, if any.
\<close>

type_synonym verdict = "log_record + PartModel"

fun logs_of :: "verdict list \<Rightarrow> log_record list" where
  "logs_of [] = []"
| "logs_of (Inl l # vs) = l # logs_of vs"
| "logs_of (Inr p # vs) = logs_of vs"

fun parts_of :: "verdict list \<Rightarrow> PartModel list" where
  "parts_of [] = []"
| "parts_of (Inl l # vs) = parts_of vs"
| "parts_of (Inr p # vs) = p # parts_of vs"

definition add_pending :: "row list \<Rightarrow> txn \<Rightarrow> txn" where
  "add_pending rs t = t\<lparr>pending := pending t @ rs\<rparr>"

definition apply_verdicts :: "verdict list \<Rightarrow> manager \<Rightarrow> manager" where
  "apply_verdicts vs x =
     x\<lparr>logger := logger x @ logs_of vs,
       session := map_option (add_pending (map PartRow (parts_of vs))) (session x)\<rparr>"

definition is_candidate :: "string \<times> bool \<Rightarrow> bool" where
  "is_candidate entry = (snd entry \<and> take 1 (fst entry) \<noteq> ''.'' \<and> fst entry \<noteq> ''__pycache__'')"

definition verdict_of ::
  "HouseModel \<Rightarrow> string \<Rightarrow> world \<Rightarrow> string list \<Rightarrow> string \<Rightarrow> string \<Rightarrow> string \<times> bool \<Rightarrow> verdict" where
  "verdict_of h base w sp c path entry =
     (let e = fst entry; p = path @ ''/'' @ e;
          locator = module_name_of base c e
      in case import_module w sp locator of
           ImportRaises exc \<Rightarrow>
             Inl (case exc of ModuleNotFoundError m \<Rightarrow> ErrorMissingPartFile p
                            | _ \<Rightarrow> ErrorCannotImport p)
         | Imported m \<Rightarrow>
             (case mod_part m of
                None \<Rightarrow> Inl (ErrorMissingPartFunction p)
              | Some f \<Rightarrow>
                  (case make_part_model h c (part_name_of (HouseModel.name h) c e) locator m f of
                     Inl exc \<Rightarrow> Inl (ErrorBuildingPart p exc)
                   | Inr pm \<Rightarrow> Inr pm)))"

definition aborting ::
  "HouseModel \<Rightarrow> string \<Rightarrow> world \<Rightarrow> string list \<Rightarrow> string \<Rightarrow> string \<times> bool \<Rightarrow> error option" where
  "aborting h base w sp c entry =
     (let e = fst entry; locator = module_name_of base c e
      in case import_module w sp locator of
           ImportRaises exc \<Rightarrow> None
         | Imported m \<Rightarrow>
             (case mod_part m of
                None \<Rightarrow> None
              | Some f \<Rightarrow>
                  (case make_part_model h c (part_name_of (HouseModel.name h) c e) locator m f of
                     Inl exc \<Rightarrow> if is_Exception exc then None else Some exc
                   | Inr pm \<Rightarrow> None)))"

fun entry_verdicts ::
  "HouseModel \<Rightarrow> string \<Rightarrow> world \<Rightarrow> string list \<Rightarrow> string \<Rightarrow> string \<Rightarrow> (string \<times> bool) list \<Rightarrow>
   error option \<times> verdict list" where
  "entry_verdicts h base w sp c path [] = (None, [])"
| "entry_verdicts h base w sp c path (entry # es) =
     (if is_candidate entry
      then (case aborting h base w sp c entry of
              Some exc \<Rightarrow> (Some exc, [])
            | None \<Rightarrow>
                (case entry_verdicts h base w sp c path es of
                   (e, vs) \<Rightarrow> (e, verdict_of h base w sp c path entry # vs)))
      else entry_verdicts h base w sp c path es)"

definition category_verdicts ::
  "HouseModel \<Rightarrow> string \<Rightarrow> world \<Rightarrow> string list \<Rightarrow> string \<times> string \<Rightarrow> error option \<times> verdict list" where
  "category_verdicts h base w sp item =
     (let path = local h @ ''/'' @ snd item
      in case scandir w path of
           Entries es \<Rightarrow> entry_verdicts h base w sp (fst item) path es
         | FileNotFoundError \<Rightarrow> (None, [])
         | ScandirOSError \<Rightarrow> (Some (NotADirectoryError path), []))"

fun scan_verdicts ::
  "HouseModel \<Rightarrow> string \<Rightarrow> world \<Rightarrow> string list \<Rightarrow> (string \<times> string) list \<Rightarrow> error option \<times> verdict list" where
  "scan_verdicts h base w sp [] = (None, [])"
| "scan_verdicts h base w sp (item # items) =
     (case category_verdicts h base w sp item of
        (Some e, vs) \<Rightarrow> (Some e, vs)
      | (None, vs) \<Rightarrow>
          (case scan_verdicts h base w sp items of (e, vs') \<Rightarrow> (e, vs @ vs')))"

definition house_verdicts :: "HouseModel \<Rightarrow> world \<Rightarrow> string list \<Rightarrow> error option \<times> verdict list" where
  "house_verdicts h w sp =
     (if lexists w (local h) then scan_verdicts h (basename (local h)) w sp part_dict
      else (None, [Inl (WarningHousePathMissing (HouseModel.name h) (local h))]))"

definition raise_or_return :: "error option \<Rightarrow> error + unit" where
  "raise_or_return e = (case e of None \<Rightarrow> Inr () | Some err \<Rightarrow> Inl err)"

text \<open>
  The candidates of a house in a world: the pairs of a category and an entry of its
  directory that the scanner looks at.
\<close>

definition candidate_of :: "HouseModel \<Rightarrow> world \<Rightarrow> string \<Rightarrow> string \<Rightarrow> bool" where
  "candidate_of h w c e =
     (\<exists>d \<in> set (map snd (filter (\<lambda>item. fst item = c) part_dict)).
        case scandir w (local h @ ''/'' @ d) of
          Entries es \<Rightarrow> (e, True) \<in> set es \<and> \<not> startswith_dot e \<and> e \<noteq> ''__pycache__''
        | _ \<Rightarrow> False)"

section \<open>Concrete inputs\<close>

text \<open>
  A house \<^verbatim>\<open>myhouse\<close> in the cache directory \<^verbatim>\<open>/cache\<close>. In the first tree
  the category \<^verbatim>\<open>sg\<close> holds the part \<^verbatim>\<open>foo\<close>, a part \<^verbatim>\<open>broken\<close>
  whose module does not parse, and three entries that are no candidates; in the second
  tree \<^verbatim>\<open>sg\<close> holds \<^verbatim>\<open>foo\<close> and \<^verbatim>\<open>sys\<close> holds \<^verbatim>\<open>foo\<close>. The
  docstring of \<^verbatim>\<open>foo\<close> begins with an ideographic space (U+3000).
\<close>

definition foo_factory :: factory where
  "foo_factory =
     \<lparr>fdoc = PyStr ([CHR 0xE3, CHR 0x80, CHR 0x80] @ '' Fixed signal.  ''),
      fcall = Some (\<lambda>kw. Inr (Component \<lparr>inst_name = ''SG_Foo'', inst_state = ''new''\<rparr>))\<rparr>"

definition foo_module :: pymodule where
  "foo_module =
     \<lparr>mod_author = Some (PyStr '' fasiondog ''), mod_version = None,
      mod_part = Some foo_factory, mod_path0 = None\<rparr>"

definition bare_module :: pymodule where
  "bare_module =
     \<lparr>mod_author = None, mod_version = None,
      mod_part = Some \<lparr>fdoc = PyNone, fcall = Some (\<lambda>kw. Inl (OtherException ''ValueError''))\<rparr>,
      mod_path0 = None\<rparr>"

text \<open>
  Four more modules: \<^verbatim>\<open>five\<close> binds the name \<^verbatim>\<open>part\<close> to a number;
  the \<^verbatim>\<open>version\<close> of \<^verbatim>\<open>odd\<close> is an object whose \<^verbatim>\<open>strip()\<close> returns an
  object that cannot be bound; the \<^verbatim>\<open>author\<close> of \<^verbatim>\<open>raw\<close> is a
  \<^verbatim>\<open>bytes\<close>; the \<^verbatim>\<open>version\<close> of \<^verbatim>\<open>num\<close> is a number, which
  has no \<^verbatim>\<open>strip\<close>; the factory of \<^verbatim>\<open>nested\<close> calls
  \<^verbatim>\<open>get_part('helper')\<close>, which raises \<^verbatim>\<open>PartNameError\<close>.
\<close>

definition five_module :: pymodule where
  "five_module =
     \<lparr>mod_author = None, mod_version = None,
      mod_part = Some \<lparr>fdoc = PyStr ''int([x]) -> integer'', fcall = None\<rparr>,
      mod_path0 = None\<rparr>"

definition odd_module :: pymodule where
  "odd_module =
     \<lparr>mod_author = None, mod_version = Some (PyObj True (Inr Unbindable)),
      mod_part = Some foo_factory, mod_path0 = None\<rparr>"

definition raw_module :: pymodule where
  "raw_module =
     \<lparr>mod_author = Some (PyBytes '' me ''), mod_version = None,
      mod_part = Some foo_factory, mod_path0 = None\<rparr>"

definition num_module :: pymodule where
  "num_module =
     \<lparr>mod_author = None, mod_version = Some (PyObj True (Inl AttributeError)),
      mod_part = Some foo_factory, mod_path0 = None\<rparr>"

definition nested_module :: pymodule where
  "nested_module =
     \<lparr>mod_author = None, mod_version = None,
      mod_part = Some \<lparr>fdoc = PyNone, fcall = Some (\<lambda>kw. Inl (PartNameError ''helper''))\<rparr>,
      mod_path0 = None\<rparr>"

definition tree_modules :: "string \<Rightarrow> import_result" where
  "tree_modules m =
     (if m = ''myhouse.part.sg.foo.part'' then Imported foo_module
      else if m = ''myhouse.part.sg.broken.part'' then ImportRaises (OtherException ''SyntaxError'')
      else if m = ''myhouse.sys.foo.part'' then Imported bare_module
      else if m = ''myhouse.part.sg.five.part'' then Imported five_module
      else if m = ''myhouse.part.sg.odd.part'' then Imported odd_module
      else if m = ''myhouse.part.sg.raw.part'' then Imported raw_module
      else if m = ''myhouse.part.sg.num.part'' then Imported num_module
      else if m = ''myhouse.part.sg.nested.part'' then Imported nested_module
      else ImportRaises (ModuleNotFoundError m))"

definition tree1 :: world where
  "tree1 =
     \<lparr>lexists = (\<lambda>p. p = ''/cache/myhouse''),
      scandir = (\<lambda>p. if p = ''/cache/myhouse/part/sg''
                      then Entries [(''foo'', True), (''broken'', True), (''.git'', True),
                                    (''__pycache__'', True), (''notes.txt'', False)]
                      else FileNotFoundError),
      abspath = (\<lambda>p. p),
      import_module = (\<lambda>sp. tree_modules),
      file_abspath = ''/site/hikyuu/house.py'',
      file_parts = [''/'', ''site'', ''hikyuu'', ''house.py'']\<rparr>"

definition tree2 :: world where
  "tree2 =
     \<lparr>lexists = (\<lambda>p. p = ''/cache/myhouse''),
      scandir = (\<lambda>p. if p = ''/cache/myhouse/part/sg'' then Entries [(''foo'', True)]
                      else if p = ''/cache/myhouse/sys'' then Entries [(''foo'', True)]
                      else FileNotFoundError),
      abspath = (\<lambda>p. p),
      import_module = (\<lambda>sp. tree_modules),
      file_abspath = ''/site/hikyuu/house.py'',
      file_parts = [''/'', ''site'', ''hikyuu'', ''house.py'']\<rparr>"

text \<open>
  A third tree, in which \<^verbatim>\<open>part/sg\<close> holds \<^verbatim>\<open>foo\<close> and \<^verbatim>\<open>part/sp\<close> is a
  file, so that listing it fails; a fourth, in which \<^verbatim>\<open>part/sg\<close> holds
  \<^verbatim>\<open>foo\<close> and \<^verbatim>\<open>odd\<close>; a fifth, in which it holds \<^verbatim>\<open>five\<close>,
  \<^verbatim>\<open>raw\<close> and \<^verbatim>\<open>num\<close>.
\<close>

definition tree3 :: world where
  "tree3 =
     \<lparr>lexists = (\<lambda>p. p = ''/cache/myhouse''),
      scandir = (\<lambda>p. if p = ''/cache/myhouse/part/sg'' then Entries [(''foo'', True)]
                      else if p = ''/cache/myhouse/part/sp'' then ScandirOSError
                      else FileNotFoundError),
      abspath = (\<lambda>p. p),
      import_module = (\<lambda>sp. tree_modules),
      file_abspath = ''/site/hikyuu/house.py'',
      file_parts = [''/'', ''site'', ''hikyuu'', ''house.py'']\<rparr>"



definition empty_disk :: world where
  "empty_disk =
     \<lparr>lexists = (\<lambda>p. False), scandir = (\<lambda>p. FileNotFoundError), abspath = (\<lambda>p. p),
      import_module = (\<lambda>sp m. ImportRaises (ModuleNotFoundError m)),
      file_abspath = ''/site/hikyuu/house.py'',
      file_parts = [''/'', ''site'', ''hikyuu'', ''house.py'']\<rparr>"

text \<open>
  A fetcher that clones the first tree from \<^verbatim>\<open>u1\<close> and the second from
  \<^verbatim>\<open>u2\<close>; one whose clone always fails; and one for a repository that is repaired
  between two fetches: it delivers the third tree, and the first tree once the third
  is in place.
\<close>

definition git0 :: fetcher where
  "git0 =
     \<lparr>rmtree = (\<lambda>d w. Removed w),
      clone_from = (\<lambda>u d b w. if u = Some ''u1'' then Cloned tree1
                              else if u = Some ''u2'' then Cloned tree2
                              else CloneRaised w)\<rparr>"

definition git_down :: fetcher where
  "git_down = \<lparr>rmtree = (\<lambda>d w. Removed w), clone_from = (\<lambda>u d b w. CloneRaised w)\<rparr>"

definition git_repaired :: fetcher where
  "git_repaired =
     \<lparr>rmtree = (\<lambda>d w. Removed w),
      clone_from = (\<lambda>u d b w. if scandir w ''/cache/myhouse/part/sp'' = ScandirOSError
                              then Cloned tree1 else Cloned tree3)\<rparr>"

definition myhouse :: HouseModel where
  "myhouse =
     \<lparr>HouseModel.name = ''myhouse'', house_type = ''remote'', local = ''/cache/myhouse'',
      url = Some ''u1'', branch = Some ''master''\<rparr>"

definition fresh_manager :: "world \<Rightarrow> manager" where
  "fresh_manager w =
     \<lparr>session = None, committed = \<lparr>houses = [], parts = []\<rparr>, commits = [],
      remote_cache_dir = ''/cache'', sys_path = [''/cache''], logger = [], fs = w\<rparr>"

text \<open>
  A manager whose store holds the house with three Part records (\<^verbatim>\<open>foo\<close>, a part
  whose module no longer parses, and a part whose module is gone) and a second house
  with one Part record; and a manager whose store holds the house with the part
  \<^verbatim>\<open>nested\<close>.
\<close>

definition foo_part :: PartModel where
  "foo_part =
     \<lparr>house_name = ''myhouse'', part = ''sg'', name = ''myhouse.sg.foo'',
      author = Text ''fasiondog'', version = Text ''None'', doc = Text ''Fixed signal.'',
      module_name = ''myhouse.part.sg.foo.part''\<rparr>"

definition broken_part :: PartModel where
  "broken_part =
     \<lparr>house_name = ''myhouse'', part = ''sg'', name = ''myhouse.sg.broken'',
      author = Text ''None'', version = Text ''None'', doc = Text ''None'',
      module_name = ''myhouse.part.sg.broken.part''\<rparr>"

definition gone_part :: PartModel where
  "gone_part =
     \<lparr>house_name = ''myhouse'', part = ''sg'', name = ''myhouse.sg.gone'',
      author = Text ''None'', version = Text ''None'', doc = Text ''None'',
      module_name = ''myhouse.part.sg.gone.part''\<rparr>"

definition otherhouse :: HouseModel where
  "otherhouse =
     \<lparr>HouseModel.name = ''other'', house_type = ''local'', local = ''/home/me/other'',
      url = None, branch = None\<rparr>"

definition other_part :: PartModel where
  "other_part =
     \<lparr>house_name = ''other'', part = ''mm'', name = ''other.mm.fixed'',
      author = Text ''me'', version = Text ''1.0'', doc = Text ''None'',
      module_name = ''other.part.mm.fixed.part''\<rparr>"

definition stale_manager :: manager where
  "stale_manager =
     \<lparr>session = None,
      committed = \<lparr>houses = [myhouse, otherhouse],
                    parts = [foo_part, broken_part, other_part, gone_part]\<rparr>,
      commits = [], remote_cache_dir = ''/cache'', sys_path = [''/cache''], logger = [],
      fs = tree1\<rparr>"

definition sys_foo_part :: PartModel where
  "sys_foo_part =
     \<lparr>house_name = ''myhouse'', part = ''sys'', name = ''myhouse.sys.foo'',
      author = Text ''None'', version = Text ''None'', doc = Text ''None'',
      module_name = ''myhouse.sys.foo.part''\<rparr>"

definition five_part :: PartModel where
  "five_part =
     \<lparr>house_name = ''myhouse'', part = ''sg'', name = ''myhouse.sg.five'',
      author = Text ''None'', version = Text ''None'', doc = Text ''int([x]) -> integer'',
      module_name = ''myhouse.part.sg.five.part''\<rparr>"

definition raw_part :: PartModel where
  "raw_part =
     \<lparr>house_name = ''myhouse'', part = ''sg'', name = ''myhouse.sg.raw'',
      author = Blob ''me'', version = Text ''None'', doc = Text ''Fixed signal.'',
      module_name = ''myhouse.part.sg.raw.part''\<rparr>"

definition odd_part :: PartModel where
  "odd_part =
     \<lparr>house_name = ''myhouse'', part = ''sg'', name = ''myhouse.sg.odd'',
      author = Text ''None'', version = Unbindable, doc = Text ''Fixed signal.'',
      module_name = ''myhouse.part.sg.odd.part''\<rparr>"

definition nested_part :: PartModel where
  "nested_part =
     \<lparr>house_name = ''myhouse'', part = ''sg'', name = ''myhouse.sg.nested'',
      author = Text ''None'', version = Text ''None'', doc = Text ''None'',
      module_name = ''myhouse.part.sg.nested.part''\<rparr>"

definition nested_manager :: manager where
  "nested_manager =
     \<lparr>session = None,
      committed = \<lparr>houses = [myhouse], parts = [nested_part]\<rparr>,
      commits = [], remote_cache_dir = ''/cache'', sys_path = [''/cache''], logger = [],
      fs = tree1\<rparr>"

section \<open>The scanner computes the verdicts\<close>

text \<open>
  The number of steps given to \<open>lstrip_steps\<close> is enough: what \<open>lstrip_by\<close> returns
  begins with none of the sequences.
\<close>

lemma drop_one_shorter: "drop_one ws s = Some r \<Longrightarrow> length r < length s"
proof (induction ws)
  case Nil
  then show ?case by simp
next
  case (Cons w ws)
  show ?case
  proof (cases "w \<noteq> [] \<and> take (length w) s = w")
    case True
    then have "0 < length w" and "s \<noteq> []"
      by auto
    with True Cons.prems show ?thesis by auto
  next
    case False
    with Cons show ?thesis by auto
  qed
qed

lemma lstrip_steps_done:
  "length s \<le> k \<Longrightarrow> drop_one ws (lstrip_steps k ws s) = None"
proof (induction k arbitrary: s)
  case 0
  then have "s = []" by simp
  moreover have "drop_one ws [] = None" by (induction ws) auto
  ultimately show ?case by simp
next
  case (Suc k)
  show ?case
  proof (cases "drop_one ws s")
    case None
    then show ?thesis by simp
  next
    case (Some r)
    then have "length r \<le> k" using drop_one_shorter [OF Some] Suc.prems by simp
    then show ?thesis using Some Suc.IH by simp
  qed
qed

lemma lstrip_by_done: "drop_one ws (lstrip_by ws s) = None"
  by (simp add: lstrip_by_def lstrip_steps_done)

lemma logs_of_append [simp]: "logs_of (a @ b) = logs_of a @ logs_of b"
  by (induction a rule: logs_of.induct) auto

lemma parts_of_append [simp]: "parts_of (a @ b) = parts_of a @ parts_of b"
  by (induction a rule: parts_of.induct) auto

lemma add_pending_Nil [simp]: "add_pending [] = (\<lambda>t. t)"
  by (rule ext) (simp add: add_pending_def)

lemma apply_verdicts_Nil [simp]: "apply_verdicts [] x = x"
  by (simp add: apply_verdicts_def option.map_ident)

lemma apply_verdicts_fields [simp]:
  "fs (apply_verdicts vs x) = fs x"
  "sys_path (apply_verdicts vs x) = sys_path x"
  "committed (apply_verdicts vs x) = committed x"
  "commits (apply_verdicts vs x) = commits x"
  "remote_cache_dir (apply_verdicts vs x) = remote_cache_dir x"
  "logger (apply_verdicts vs x) = logger x @ logs_of vs"
  "session (apply_verdicts vs x) = map_option (add_pending (map PartRow (parts_of vs))) (session x)"
  by (simp_all add: apply_verdicts_def)

lemma apply_verdicts_append:
  "apply_verdicts b (apply_verdicts a x) = apply_verdicts (a @ b) x"
  by (cases "session x") (auto simp: apply_verdicts_def add_pending_def)

lemma startswith_dot_take: "startswith_dot s = (take 1 s = ''.'')"
  by (cases s) (auto simp: startswith_dot_def)

lemma scan_entry_verdict:
  "scan_entry h base c path entry x =
     (if is_candidate entry
      then (case aborting h base (fs x) (sys_path x) c entry of
              Some exc \<Rightarrow> (Inl exc, x)
            | None \<Rightarrow> (Inr (), apply_verdicts [verdict_of h base (fs x) (sys_path x) c path entry] x))
      else (Inr (), x))"
  by (cases "session x")
    (auto simp: scan_entry_def is_candidate_def verdict_of_def aborting_def startswith_dot_take Let_def
        apply_verdicts_def log_error_def session_add_def add_pending_def
      split: import_result.splits error.splits option.splits sum.splits)

lemma scan_entries_verdicts:
  "scan_entries h base c path es x =
     (case entry_verdicts h base (fs x) (sys_path x) c path es of
        (e, vs) \<Rightarrow> (raise_or_return e, apply_verdicts vs x))"
proof (induction es arbitrary: x)
  case Nil
  show ?case by (simp add: raise_or_return_def)
next
  case (Cons entry es)
  show ?case
  proof (cases "is_candidate entry")
    case False
    then show ?thesis
      by (simp add: scan_entry_verdict and_then_def Cons.IH)
  next
    case True
    show ?thesis
    proof (cases "aborting h base (fs x) (sys_path x) c entry")
      case (Some exc)
      then show ?thesis
        using True by (simp add: scan_entry_verdict and_then_def raise_or_return_def)
    next
      case None
      then show ?thesis
        using True
        by (simp add: scan_entry_verdict and_then_def Cons.IH apply_verdicts_append
            split: prod.splits)
    qed
  qed
qed

lemma scan_categories_verdicts:
  "scan_categories h base items x =
     (case scan_verdicts h base (fs x) (sys_path x) items of
        (e, vs) \<Rightarrow> (raise_or_return e, apply_verdicts vs x))"
proof (induction items arbitrary: x)
  case Nil
  show ?case by (simp add: raise_or_return_def)
next
  case (Cons item items)
  show ?case
    by (simp add: Cons.IH scan_category_def scan_entries_verdicts and_then_def Let_def
          raise_or_return_def apply_verdicts_append category_verdicts_def
        split: scandir_result.splits prod.splits option.splits)
qed

lemma import_part_to_db_body_verdicts:
  "import_part_to_db_body h x =
     (case house_verdicts h (fs x) (sys_path x) of
        (e, vs) \<Rightarrow> (raise_or_return e, apply_verdicts vs x))"
  by (simp add: import_part_to_db_body_def house_verdicts_def scan_categories_verdicts
        raise_or_return_def apply_verdicts_def log_error_def Let_def option.map_ident)

section \<open>The wrapper around the scanner\<close>

lemma flush_parts:
  "flush (map PartRow ps) d =
     (if \<forall>p \<in> set ps. bindable p then Inr (d\<lparr>parts := parts d @ ps\<rparr>) else Inl InterfaceError)"
  by (induction ps arbitrary: d) auto

lemma dbsession_opened:
  "dbsession f x =
     (case f (opened x) of
        (Inl e, x2) \<Rightarrow> (Inl e, x2)
      | (Inr r, x2) \<Rightarrow>
          (case commit x2 of
             (Inl e, x3) \<Rightarrow> (Inl e, x3)
           | (Inr u, x3) \<Rightarrow> (Inr r, if session x = None then x3\<lparr>session := None\<rparr> else x3)))"
  by (cases "session x") (simp_all add: dbsession_def opened_def Let_def split: prod.splits sum.splits)

lemma opened_fields [simp]:
  "fs (opened x) = fs x" "sys_path (opened x) = sys_path x" "committed (opened x) = committed x"
  "commits (opened x) = commits x" "logger (opened x) = logger x"
  "remote_cache_dir (opened x) = remote_cache_dir x"
  by (simp_all add: opened_def)

lemma the_view_opened [simp]: "the_view (opened x) = the_view x"
  by (simp add: opened_def the_view_def new_session_def)

lemma session_opened:
  "session (opened x) = Some (case session x of None \<Rightarrow> new_session x | Some t \<Rightarrow> t)"
  by (simp add: opened_def split: option.splits)

lemma opened_clean:
  "clean x \<Longrightarrow> opened x = x\<lparr>session := Some \<lparr>view = the_view x, pending = [], inactive = False\<rparr>\<rparr>"
  by (cases "session x") (auto simp: clean_def opened_def new_session_def the_view_def)

lemma healthy_opened [simp]: "healthy (opened x) = healthy x"
  by (simp add: healthy_def opened_def new_session_def)

lemma statement_opened:
  "statement (opened x) = (if healthy x then (Inr (), opened x) else (Inl PendingRollbackError, opened x))"
  by (cases "session x") (auto simp: statement_def opened_def healthy_def new_session_def)

lemma clean_healthy: "clean x \<Longrightarrow> healthy x"
  by (auto simp: clean_def healthy_def split: option.splits)

lemma settled_clean: "settled x \<Longrightarrow> clean x"
  by (auto simp: clean_def settled_def split: option.splits)

lemma settled_view: "settled x \<Longrightarrow> the_view x = committed x"
  by (auto simp: the_view_def settled_def split: option.splits)

lemma import_part_to_db_run:
  "import_part_to_db h x =
     (case house_verdicts h (fs x) (sys_path x) of
        (Some e, vs) \<Rightarrow> (Inl e, apply_verdicts vs (opened x))
      | (None, vs) \<Rightarrow>
          (case commit (apply_verdicts vs (opened x)) of
             (Inl e, x3) \<Rightarrow> (Inl e, x3)
           | (Inr u, x3) \<Rightarrow> (Inr (), if session x = None then x3\<lparr>session := None\<rparr> else x3)))"
  by (cases "session x")
     (simp_all add: import_part_to_db_def dbsession_opened import_part_to_db_body_verdicts
        raise_or_return_def split: prod.splits option.splits sum.splits)

lemma commit_scanned:
  assumes "clean x"
  shows "commit (apply_verdicts vs (opened x)) =
     (if \<forall>p \<in> set (parts_of vs). bindable p
      then (Inr (),
            x\<lparr>session := Some \<lparr>view = \<lparr>houses = houses (the_view x),
                                         parts = parts (the_view x) @ parts_of vs\<rparr>,
                                 pending = [], inactive = False\<rparr>,
              committed := \<lparr>houses = houses (the_view x), parts = parts (the_view x) @ parts_of vs\<rparr>,
              commits := commits x @
                [\<lparr>houses = houses (the_view x), parts = parts (the_view x) @ parts_of vs\<rparr>],
              logger := logger x @ logs_of vs\<rparr>)
      else (Inl InterfaceError,
            x\<lparr>session := after_failure x, logger := logger x @ logs_of vs\<rparr>))"
  by (simp add: opened_clean [OF assms] commit_def apply_verdicts_def add_pending_def
        flush_parts after_failure_def)

lemma import_part_to_db_any:
  assumes cl: "clean x"
  shows "import_part_to_db h x =
     (case house_verdicts h (fs x) (sys_path x) of
        (Some e, vs) \<Rightarrow> (Inl e, apply_verdicts vs (opened x))
      | (None, vs) \<Rightarrow>
          if \<forall>p \<in> set (parts_of vs). bindable p
          then (Inr (),
                x\<lparr>session := after_commit x
                      \<lparr>houses = houses (the_view x), parts = parts (the_view x) @ parts_of vs\<rparr>,
                  committed := \<lparr>houses = houses (the_view x), parts = parts (the_view x) @ parts_of vs\<rparr>,
                  commits := commits x @
                    [\<lparr>houses = houses (the_view x), parts = parts (the_view x) @ parts_of vs\<rparr>],
                  logger := logger x @ logs_of vs\<rparr>)
          else (Inl InterfaceError,
                x\<lparr>session := after_failure x, logger := logger x @ logs_of vs\<rparr>))"
  by (cases "session x")
     (auto simp: import_part_to_db_run commit_scanned [OF cl] after_commit_def
        split: prod.splits option.splits)

section \<open>The verdicts of a scan\<close>

lemma parts_of_set: "p \<in> set (parts_of vs) \<longleftrightarrow> Inr p \<in> set vs"
  by (induction vs rule: parts_of.induct) auto

lemma logs_of_set: "l \<in> set (logs_of vs) \<longleftrightarrow> Inl l \<in> set vs"
  by (induction vs rule: logs_of.induct) auto

lemma entry_verdicts_has:
  "entry_verdicts h b w sp c path es = (None, vs) \<Longrightarrow> entry \<in> set es \<Longrightarrow> is_candidate entry \<Longrightarrow>
   verdict_of h b w sp c path entry \<in> set vs \<and> aborting h b w sp c entry = None"
proof (induction es arbitrary: vs)
  case Nil
  then show ?case by simp
next
  case (Cons a es)
  show ?case
  proof (cases "is_candidate a")
    case False
    with Cons show ?thesis by auto
  next
    case True
    with Cons.prems(1) have ab: "aborting h b w sp c a = None"
      by (auto split: option.splits)
    obtain e' vs' where r: "entry_verdicts h b w sp c path es = (e', vs')"
      by (cases "entry_verdicts h b w sp c path es")
    with Cons.prems(1) True ab have e': "e' = None" and vs: "vs = verdict_of h b w sp c path a # vs'"
      by auto
    show ?thesis
    proof (cases "entry = a")
      case True
      with ab vs show ?thesis by simp
    next
      case False
      with Cons.prems(2) have "entry \<in> set es" by simp
      with Cons.IH [of vs'] r e' Cons.prems(3) vs show ?thesis by simp
    qed
  qed
qed

lemma entry_verdicts_from:
  "entry_verdicts h b w sp c path es = (e, vs) \<Longrightarrow> v \<in> set vs \<Longrightarrow>
   \<exists>entry \<in> set es. is_candidate entry \<and> v = verdict_of h b w sp c path entry"
proof (induction es arbitrary: e vs)
  case Nil
  then show ?case by simp
next
  case (Cons a es)
  show ?case
  proof (cases "is_candidate a")
    case False
    with Cons show ?thesis by auto
  next
    case True
    show ?thesis
    proof (cases "aborting h b w sp c a")
      case (Some exc)
      with Cons.prems True show ?thesis by simp
    next
      case None
      obtain e' vs' where r: "entry_verdicts h b w sp c path es = (e', vs')"
        by (cases "entry_verdicts h b w sp c path es")
      with Cons.prems(1) True None have vs: "vs = verdict_of h b w sp c path a # vs'"
        by auto
      with Cons.prems(2) consider "v = verdict_of h b w sp c path a" | "v \<in> set vs'"
        by auto
      then show ?thesis
      proof cases
        case 1
        with True show ?thesis by auto
      next
        case 2
        with Cons.IH [OF r] show ?thesis by auto
      qed
    qed
  qed
qed


lemma scan_verdicts_has:
  "scan_verdicts h b w sp items = (None, vs) \<Longrightarrow> item \<in> set items \<Longrightarrow>
   scandir w (local h @ ''/'' @ snd item) = Entries es \<Longrightarrow> entry \<in> set es \<Longrightarrow>
   is_candidate entry \<Longrightarrow>
   verdict_of h b w sp (fst item) (local h @ ''/'' @ snd item) entry \<in> set vs \<and>
   aborting h b w sp (fst item) entry = None"
proof (induction items arbitrary: vs)
  case Nil
  then show ?case by simp
next
  case (Cons a items)
  obtain e1 v1 where c1: "category_verdicts h b w sp a = (e1, v1)"
    by (cases "category_verdicts h b w sp a")
  obtain e2 v2 where c2: "scan_verdicts h b w sp items = (e2, v2)"
    by (cases "scan_verdicts h b w sp items")
  from Cons.prems(1) c1 c2 have e1: "e1 = None" and e2: "e2 = None" and vs: "vs = v1 @ v2"
    by (auto split: option.splits)
  show ?case
  proof (cases "item = a")
    case True
    have "entry_verdicts h b w sp (fst item) (local h @ ''/'' @ snd item) es = (None, v1)"
      using c1 e1 True Cons.prems(3) by (simp add: category_verdicts_def)
    from entry_verdicts_has [OF this Cons.prems(4,5)] vs show ?thesis by simp
  next
    case False
    with Cons.prems(2) have "item \<in> set items" by simp
    from Cons.IH [OF _ this Cons.prems(3,4,5), of v2] c2 e2 vs show ?thesis by simp
  qed
qed

lemma scan_verdicts_from:
  "scan_verdicts h b w sp items = (e, vs) \<Longrightarrow> v \<in> set vs \<Longrightarrow>
   \<exists>item \<in> set items. \<exists>es. scandir w (local h @ ''/'' @ snd item) = Entries es \<and>
     (\<exists>entry \<in> set es. is_candidate entry \<and>
        v = verdict_of h b w sp (fst item) (local h @ ''/'' @ snd item) entry)"
proof (induction items arbitrary: e vs)
  case Nil
  then show ?case by simp
next
  case (Cons a items)
  obtain e1 v1 where c1: "category_verdicts h b w sp a = (e1, v1)"
    by (cases "category_verdicts h b w sp a")
  obtain e2 v2 where c2: "scan_verdicts h b w sp items = (e2, v2)"
    by (cases "scan_verdicts h b w sp items")
  have in1: "\<exists>es. scandir w (local h @ ''/'' @ snd a) = Entries es \<and>
     (\<exists>entry \<in> set es. is_candidate entry \<and>
        v = verdict_of h b w sp (fst a) (local h @ ''/'' @ snd a) entry)" if "v \<in> set v1"
  proof (cases "scandir w (local h @ ''/'' @ snd a)")
    case (Entries es)
    with c1 have "entry_verdicts h b w sp (fst a) (local h @ ''/'' @ snd a) es = (e1, v1)"
      by (simp add: category_verdicts_def)
    from entry_verdicts_from [OF this that] Entries show ?thesis by simp
  next
    case FileNotFoundError
    with c1 that show ?thesis by (simp add: category_verdicts_def)
  next
    case ScandirOSError
    with c1 that show ?thesis by (simp add: category_verdicts_def)
  qed
  show ?case
  proof (cases e1)
    case (Some err)
    with Cons.prems c1 have "v \<in> set v1" by auto
    from in1 [OF this] show ?thesis by auto
  next
    case None
    with Cons.prems c1 c2 have "v \<in> set v1 \<or> v \<in> set v2" by auto
    then show ?thesis
    proof
      assume "v \<in> set v1"
      from in1 [OF this] show ?thesis by auto
    next
      assume "v \<in> set v2"
      from Cons.IH [OF c2 this] show ?thesis by auto
    qed
  qed
qed


lemma verdict_of_registered:
  "verdict_of h b w sp c path entry = Inr p \<Longrightarrow>
     module_name p = module_name_of b c (fst entry) \<and>
     PartModel.name p = part_name_of (HouseModel.name h) c (fst entry) \<and>
     house_name p = HouseModel.name h \<and> part p = c"
  by (auto simp: verdict_of_def make_part_model_def Let_def
      split: import_result.splits option.splits sum.splits)

lemma verdict_of_cases:
  "verdict_of h b w sp c path entry =
     (case import_module w sp (module_name_of b c (fst entry)) of
        ImportRaises exc \<Rightarrow>
          Inl (case exc of ModuleNotFoundError m \<Rightarrow> ErrorMissingPartFile (path @ ''/'' @ fst entry)
                         | _ \<Rightarrow> ErrorCannotImport (path @ ''/'' @ fst entry))
      | Imported m \<Rightarrow>
          (case mod_part m of
             None \<Rightarrow> Inl (ErrorMissingPartFunction (path @ ''/'' @ fst entry))
           | Some f \<Rightarrow>
               (case make_part_model h c (part_name_of (HouseModel.name h) c (fst entry))
                       (module_name_of b c (fst entry)) m f of
                  Inl exc \<Rightarrow> Inl (ErrorBuildingPart (path @ ''/'' @ fst entry) exc)
                | Inr pm \<Rightarrow> Inr pm)))"
  by (simp add: verdict_of_def Let_def
      split: import_result.splits error.splits option.splits sum.splits)


text \<open>What a scan that returned has done.\<close>

lemma import_part_to_db_returned:
  assumes cl: "clean x" and run: "import_part_to_db h x = (Inr (), x')"
  shows "\<exists>vs. house_verdicts h (fs x) (sys_path x) = (None, vs) \<and>
           (\<forall>p \<in> set (parts_of vs). bindable p) \<and>
           x' = x\<lparr>session := after_commit x
                      \<lparr>houses = houses (the_view x), parts = parts (the_view x) @ parts_of vs\<rparr>,
                  committed := \<lparr>houses = houses (the_view x), parts = parts (the_view x) @ parts_of vs\<rparr>,
                  commits := commits x @
                    [\<lparr>houses = houses (the_view x), parts = parts (the_view x) @ parts_of vs\<rparr>],
                  logger := logger x @ logs_of vs\<rparr>"
proof -
  obtain e vs where hv: "house_verdicts h (fs x) (sys_path x) = (e, vs)"
    by (cases "house_verdicts h (fs x) (sys_path x)")
  show ?thesis
  proof (cases e)
    case (Some err)
    with run hv show ?thesis by (simp add: import_part_to_db_any [OF cl])
  next
    case None
    show ?thesis
    proof (cases "\<forall>p \<in> set (parts_of vs). bindable p")
      case True
      with run hv None show ?thesis by (simp add: import_part_to_db_any [OF cl])
    next
      case False
      with run hv None show ?thesis by (simp add: import_part_to_db_any [OF cl])
    qed
  qed
qed

lemma is_candidate_iff:
  "is_candidate (e, isdir) \<longleftrightarrow> isdir \<and> \<not> startswith_dot e \<and> e \<noteq> ''__pycache__''"
  by (auto simp: is_candidate_def startswith_dot_take)

section \<open>The scans of the concrete trees\<close>

lemma strip_examples:
  "strip '' fasiondog '' = ''fasiondog''"
  "strip (CHR 0xE3 # CHR 0x80 # CHR 0x80 # '' Fixed signal.  '') = ''Fixed signal.''"
  "strip ''int([x]) -> integer'' = ''int([x]) -> integer''"
  "bytes_strip '' me '' = ''me''"
  by (simp_all add: strip_def bytes_strip_def lstrip_by_def rstrip_by_def unicode_whitespace_def
        ascii_whitespace_def)

lemmas scan_defs =
  house_verdicts_def myhouse_def part_dict_def category_verdicts_def
  is_candidate_def verdict_of_def aborting_def module_name_of_def part_name_of_def tree_modules_def
  foo_module_def foo_factory_def bare_module_def five_module_def odd_module_def raw_module_def
  num_module_def nested_module_def make_part_model_def attr_or_None_def doc_or_None_def
  py_strip_def py_truth_def is_Exception_def strip_examples basename_def

lemma tree1_verdicts:
  "house_verdicts myhouse tree1 sp =
     (None, [Inr foo_part, Inl (ErrorCannotImport ''/cache/myhouse/part/sg/broken'')])"
  by (simp add: scan_defs tree1_def foo_part_def)

lemma tree2_verdicts:
  "house_verdicts myhouse tree2 sp = (None, [Inr foo_part, Inr sys_foo_part])"
  by (simp add: scan_defs tree2_def foo_part_def sys_foo_part_def)

lemma tree3_verdicts:
  "house_verdicts myhouse tree3 sp =
     (Some (NotADirectoryError ''/cache/myhouse/part/sp''), [Inr foo_part])"
  by (simp add: scan_defs tree3_def foo_part_def)



lemma empty_disk_verdicts:
  "house_verdicts myhouse empty_disk sp =
     (None, [Inl (WarningHousePathMissing ''myhouse'' ''/cache/myhouse'')])"
  by (simp add: house_verdicts_def myhouse_def empty_disk_def)

section \<open>The claims about the scanner\<close>

lemma fresh_clean: "clean (fresh_manager w)"
  by (simp add: clean_def fresh_manager_def)

lemma stale_clean: "clean stale_manager"
  by (simp add: clean_def stale_manager_def)

lemma fresh_scan:
  assumes "house_verdicts myhouse w [''/cache''] = (None, vs)" and "\<forall>p \<in> set (parts_of vs). bindable p"
  shows "import_part_to_db myhouse (fresh_manager w) =
     (Inr (),
      (fresh_manager w)
        \<lparr>committed := \<lparr>houses = [], parts = parts_of vs\<rparr>,
         commits := [\<lparr>houses = [], parts = parts_of vs\<rparr>],
         logger := logs_of vs\<rparr>)"
proof -
  have f: "fs (fresh_manager w) = w" "sys_path (fresh_manager w) = [''/cache'']"
    "the_view (fresh_manager w) = \<lparr>houses = [], parts = []\<rparr>" "session (fresh_manager w) = None"
    "commits (fresh_manager w) = []" "logger (fresh_manager w) = []"
    by (simp_all add: fresh_manager_def the_view_def)
  show ?thesis
    using assms
    by (simp add: import_part_to_db_any [OF fresh_clean] f after_commit_def)
qed

lemma bindable_parts:
  "bindable foo_part" "bindable sys_foo_part" "bindable five_part" "bindable raw_part"
  "\<not> bindable odd_part"
  by (simp_all add: bindable_def foo_part_def sys_foo_part_def five_part_def raw_part_def odd_part_def)

lemma tree1_scan:
  "import_part_to_db myhouse (fresh_manager tree1) =
     (Inr (),
      (fresh_manager tree1)
        \<lparr>committed := \<lparr>houses = [], parts = [foo_part]\<rparr>,
         commits := [\<lparr>houses = [], parts = [foo_part]\<rparr>],
         logger := [ErrorCannotImport ''/cache/myhouse/part/sg/broken'']\<rparr>)"
  using fresh_scan [OF tree1_verdicts] by (simp add: bindable_parts)

lemma tree2_scan:
  "import_part_to_db myhouse (fresh_manager tree2) =
     (Inr (),
      (fresh_manager tree2)
        \<lparr>committed := \<lparr>houses = [], parts = [foo_part, sys_foo_part]\<rparr>,
         commits := [\<lparr>houses = [], parts = [foo_part, sys_foo_part]\<rparr>],
         logger := []\<rparr>)"
  using fresh_scan [OF tree2_verdicts] by (simp add: bindable_parts)



lemma empty_disk_scan:
  "import_part_to_db myhouse (fresh_manager empty_disk) =
     (Inr (),
      (fresh_manager empty_disk)
        \<lparr>committed := \<lparr>houses = [], parts = []\<rparr>,
         commits := [\<lparr>houses = [], parts = []\<rparr>],
         logger := [WarningHousePathMissing ''myhouse'' ''/cache/myhouse'']\<rparr>)"
  using fresh_scan [OF empty_disk_verdicts] by simp

lemma scanned_candidate:
  assumes cl: "clean x"
    and run: "import_part_to_db h x = (Inr (), x')"
    and ex: "lexists (fs x) (local h)"
    and cat: "(c, d) \<in> set part_dict"
    and dir: "scandir (fs x) (local h @ ''/'' @ d) = Entries es"
    and ent: "(e, True) \<in> set es" and nodot: "\<not> startswith_dot e" and nocache: "e \<noteq> ''__pycache__''"
  shows "\<exists>vs. scan_verdicts h (basename (local h)) (fs x) (sys_path x) part_dict = (None, vs) \<and>
           verdict_of h (basename (local h)) (fs x) (sys_path x) c (local h @ ''/'' @ d) (e, True)
             \<in> set vs \<and>
           (\<forall>p \<in> set (parts_of vs). bindable p) \<and>
           parts (committed x') = parts (the_view x) @ parts_of vs \<and>
           houses (committed x') = houses (the_view x) \<and>
           the_view x' = committed x' \<and> clean x' \<and>
           logger x' = logger x @ logs_of vs"
proof -
  from import_part_to_db_returned [OF cl run] obtain vs where
    hv: "house_verdicts h (fs x) (sys_path x) = (None, vs)" and
    bd: "\<forall>p \<in> set (parts_of vs). bindable p" and
    x': "x' = x\<lparr>session := after_commit x
                      \<lparr>houses = houses (the_view x), parts = parts (the_view x) @ parts_of vs\<rparr>,
                  committed := \<lparr>houses = houses (the_view x), parts = parts (the_view x) @ parts_of vs\<rparr>,
                  commits := commits x @
                    [\<lparr>houses = houses (the_view x), parts = parts (the_view x) @ parts_of vs\<rparr>],
                  logger := logger x @ logs_of vs\<rparr>"
    by blast
  have sv: "scan_verdicts h (basename (local h)) (fs x) (sys_path x) part_dict = (None, vs)"
    using hv ex by (simp add: house_verdicts_def)
  have cand: "is_candidate (e, True)"
    using nodot nocache by (simp add: is_candidate_iff)
  have dir': "scandir (fs x) (local h @ ''/'' @ snd (c, d)) = Entries es"
    using dir by simp
  from scan_verdicts_has [OF sv cat dir' ent cand]
  have v: "verdict_of h (basename (local h)) (fs x) (sys_path x) c (local h @ ''/'' @ d) (e, True)
             \<in> set vs"
    by simp
  have view: "the_view x' = committed x'" and cl': "clean x'"
    unfolding x' by (cases "session x"; simp add: the_view_def after_commit_def clean_def)+
  show ?thesis
    using sv v bd view cl' by (intro exI [of _ vs]) (simp add: x')
qed

text \<open>
  Claim C1. When a scan of the house \<open>h\<close> returns, then for every candidate entry
  \<open>e\<close> of the directory of a category \<open>c\<close>: the module locator is
  \<^verbatim>\<open>B.part.C.E.part\<close> for the nine categories kept under \<^verbatim>\<open>part/\<close> and
  \<^verbatim>\<open>B.C.E.part\<close> for \<^verbatim>\<open>prtflo\<close> and \<^verbatim>\<open>sys\<close>, where \<open>B\<close> is the base
  name of the house path; every category is of one of the two kinds; the
  fully-qualified name is \<^verbatim>\<open>N.C.E\<close> by one formula, whatever the category. The
  scanner loads the module at this locator: when the load gives a module with a
  \<^verbatim>\<open>part\<close> whose record can be built, the store holds this record afterwards,
  carrying the locator and the name; when the load raises, the logger holds the error
  for the entry. Every Part row that the scan added carries the locator and the name of
  some listed entry of some category.
\<close>

theorem C1_locator_and_name:
  assumes cl: "clean x"
    and run: "import_part_to_db h x = (Inr (), x')"
    and ex: "lexists (fs x) (local h)"
    and cat: "(c, d) \<in> set part_dict"
    and dir: "scandir (fs x) (local h @ ''/'' @ d) = Entries es"
    and ent: "(e, True) \<in> set es" and nodot: "\<not> startswith_dot e" and nocache: "e \<noteq> ''__pycache__''"
  shows "(c \<in> {''af'', ''cn'', ''ev'', ''mm'', ''pg'', ''se'', ''sg'', ''sp'', ''st''} \<longrightarrow>
            module_name_of (basename (local h)) c e =
              basename (local h) @ ''.part.'' @ c @ ''.'' @ e @ ''.part'') \<and>
         (c \<in> {''prtflo'', ''sys''} \<longrightarrow>
            module_name_of (basename (local h)) c e =
              basename (local h) @ ''.'' @ c @ ''.'' @ e @ ''.part'') \<and>
         (c \<in> {''af'', ''cn'', ''ev'', ''mm'', ''pg'', ''se'', ''sg'', ''sp'', ''st''} \<or>
          c \<in> {''prtflo'', ''sys''}) \<and>
         part_name_of (HouseModel.name h) c e = HouseModel.name h @ ''.'' @ c @ ''.'' @ e \<and>
         (\<forall>m f p.
            import_module (fs x) (sys_path x) (module_name_of (basename (local h)) c e) = Imported m \<and>
            mod_part m = Some f \<and>
            make_part_model h c (part_name_of (HouseModel.name h) c e)
              (module_name_of (basename (local h)) c e) m f = Inr p \<longrightarrow>
            p \<in> set (parts (committed x')) \<and>
            module_name p = module_name_of (basename (local h)) c e \<and>
            PartModel.name p = part_name_of (HouseModel.name h) c e) \<and>
         (\<forall>exc.
            import_module (fs x) (sys_path x) (module_name_of (basename (local h)) c e) =
              ImportRaises exc \<longrightarrow>
            (case exc of
               ModuleNotFoundError m \<Rightarrow> ErrorMissingPartFile (local h @ ''/'' @ d @ ''/'' @ e)
             | _ \<Rightarrow> ErrorCannotImport (local h @ ''/'' @ d @ ''/'' @ e)) \<in> set (logger x')) \<and>
         (\<exists>new. parts (committed x') = parts (the_view x) @ new \<and>
            (\<forall>p \<in> set new. \<exists>c' d' es' e'.
               (c', d') \<in> set part_dict \<and>
               scandir (fs x) (local h @ ''/'' @ d') = Entries es' \<and> (e', True) \<in> set es' \<and>
               module_name p = module_name_of (basename (local h)) c' e' \<and>
               PartModel.name p = part_name_of (HouseModel.name h) c' e'))"
proof -
  let ?B = "basename (local h)"
  let ?L = "module_name_of ?B c e"
  let ?N = "part_name_of (HouseModel.name h) c e"
  let ?v = "verdict_of h ?B (fs x) (sys_path x) c (local h @ ''/'' @ d) (e, True)"
  from scanned_candidate [OF cl run ex cat dir ent nodot nocache] obtain vs where
    sv: "scan_verdicts h ?B (fs x) (sys_path x) part_dict = (None, vs)" and
    v: "?v \<in> set vs" and
    ps: "parts (committed x') = parts (the_view x) @ parts_of vs" and
    lg: "logger x' = logger x @ logs_of vs"
    by blast
  have kinds: "c \<in> {''af'', ''cn'', ''ev'', ''mm'', ''pg'', ''se'', ''sg'', ''sp'', ''st''} \<or>
      c \<in> {''prtflo'', ''sys''}"
    using cat by (auto simp: part_dict_def)
  have loc1: "c \<in> {''af'', ''cn'', ''ev'', ''mm'', ''pg'', ''se'', ''sg'', ''sp'', ''st''} \<longrightarrow>
      ?L = ?B @ ''.part.'' @ c @ ''.'' @ e @ ''.part''"
    by (auto simp: module_name_of_def)
  have loc2: "c \<in> {''prtflo'', ''sys''} \<longrightarrow> ?L = ?B @ ''.'' @ c @ ''.'' @ e @ ''.part''"
    by (auto simp: module_name_of_def)
  have nm: "?N = HouseModel.name h @ ''.'' @ c @ ''.'' @ e"
    by (simp add: part_name_of_def)
  have reg: "\<forall>m f p.
      import_module (fs x) (sys_path x) ?L = Imported m \<and> mod_part m = Some f \<and>
      make_part_model h c ?N ?L m f = Inr p \<longrightarrow>
      p \<in> set (parts (committed x')) \<and> module_name p = ?L \<and> PartModel.name p = ?N"
  proof (intro allI impI)
    fix m f p
    assume a: "import_module (fs x) (sys_path x) ?L = Imported m \<and> mod_part m = Some f \<and>
      make_part_model h c ?N ?L m f = Inr p"
    then have vp: "?v = Inr p"
      by (simp add: verdict_of_cases)
    with v have "p \<in> set (parts_of vs)"
      by (simp add: parts_of_set)
    moreover from verdict_of_registered [OF vp]
    have "module_name p = ?L \<and> PartModel.name p = ?N" by simp
    ultimately show "p \<in> set (parts (committed x')) \<and> module_name p = ?L \<and> PartModel.name p = ?N"
      by (simp add: ps)
  qed
  have logged: "\<forall>exc. import_module (fs x) (sys_path x) ?L = ImportRaises exc \<longrightarrow>
      (case exc of
         ModuleNotFoundError m \<Rightarrow> ErrorMissingPartFile (local h @ ''/'' @ d @ ''/'' @ e)
       | _ \<Rightarrow> ErrorCannotImport (local h @ ''/'' @ d @ ''/'' @ e)) \<in> set (logger x')"
  proof (intro allI impI)
    fix exc
    assume a: "import_module (fs x) (sys_path x) ?L = ImportRaises exc"
    let ?l = "case exc of
         ModuleNotFoundError m \<Rightarrow> ErrorMissingPartFile (local h @ ''/'' @ d @ ''/'' @ e)
       | _ \<Rightarrow> ErrorCannotImport (local h @ ''/'' @ d @ ''/'' @ e)"
    from a have "?v = Inl ?l"
      by (cases exc) (simp_all add: verdict_of_cases)
    with v have "?l \<in> set (logs_of vs)"
      by (simp add: logs_of_set)
    then show "?l \<in> set (logger x')"
      by (simp add: lg)
  qed
  have conv: "\<forall>p \<in> set (parts_of vs). \<exists>c' d' es' e'.
      (c', d') \<in> set part_dict \<and>
      scandir (fs x) (local h @ ''/'' @ d') = Entries es' \<and> (e', True) \<in> set es' \<and>
      module_name p = module_name_of ?B c' e' \<and>
      PartModel.name p = part_name_of (HouseModel.name h) c' e'"
  proof
    fix p
    assume "p \<in> set (parts_of vs)"
    then have "Inr p \<in> set vs" by (simp add: parts_of_set)
    from scan_verdicts_from [OF sv this] obtain item es' entry where
      i: "item \<in> set part_dict" and
      s: "scandir (fs x) (local h @ ''/'' @ snd item) = Entries es'" and
      en: "entry \<in> set es'" and c: "is_candidate entry" and
      vp: "Inr p = verdict_of h ?B (fs x) (sys_path x) (fst item) (local h @ ''/'' @ snd item) entry"
      by blast
    from c have "entry = (fst entry, True)"
      by (cases entry) (simp add: is_candidate_def)
    with en have en': "(fst entry, True) \<in> set es'" by simp
    from i have i': "(fst item, snd item) \<in> set part_dict" by simp
    from verdict_of_registered [OF vp [symmetric]]
    have "module_name p = module_name_of ?B (fst item) (fst entry) \<and>
        PartModel.name p = part_name_of (HouseModel.name h) (fst item) (fst entry)"
      by simp
    with i' s en' show "\<exists>c' d' es' e'.
      (c', d') \<in> set part_dict \<and>
      scandir (fs x) (local h @ ''/'' @ d') = Entries es' \<and> (e', True) \<in> set es' \<and>
      module_name p = module_name_of ?B c' e' \<and>
      PartModel.name p = part_name_of (HouseModel.name h) c' e'"
      by blast
  qed
  have new: "\<exists>new. parts (committed x') = parts (the_view x) @ new \<and>
            (\<forall>p \<in> set new. \<exists>c' d' es' e'.
               (c', d') \<in> set part_dict \<and>
               scandir (fs x) (local h @ ''/'' @ d') = Entries es' \<and> (e', True) \<in> set es' \<and>
               module_name p = module_name_of ?B c' e' \<and>
               PartModel.name p = part_name_of (HouseModel.name h) c' e')"
    using ps conv by (intro exI [of _ "parts_of vs"]) simp
  show ?thesis
    by (intro conjI) (rule loc1, rule loc2, rule kinds, rule nm, rule reg, rule logged, rule new)
qed

lemma tree2_lists:
  "lexists (fs (fresh_manager tree2)) (local myhouse)"
  "(''sg'', ''part/sg'') \<in> set part_dict"
  "(''sys'', ''sys'') \<in> set part_dict"
  "scandir (fs (fresh_manager tree2)) (local myhouse @ ''/'' @ ''part/sg'') = Entries [(''foo'', True)]"
  "scandir (fs (fresh_manager tree2)) (local myhouse @ ''/'' @ ''sys'') = Entries [(''foo'', True)]"
  "(''foo'', True) \<in> set [(''foo'', True)]"
  "\<not> startswith_dot ''foo''" "''foo'' \<noteq> ''__pycache__''"
  by (simp_all add: fresh_manager_def tree2_def myhouse_def part_dict_def startswith_dot_def)

lemma tree2_builds:
  "import_module (fs (fresh_manager tree2)) (sys_path (fresh_manager tree2))
     (module_name_of (basename (local myhouse)) ''sg'' ''foo'') = Imported foo_module"
  "mod_part foo_module = Some foo_factory"
  "make_part_model myhouse ''sg'' (part_name_of (HouseModel.name myhouse) ''sg'' ''foo'')
     (module_name_of (basename (local myhouse)) ''sg'' ''foo'') foo_module foo_factory = Inr foo_part"
  "import_module (fs (fresh_manager tree2)) (sys_path (fresh_manager tree2))
     (module_name_of (basename (local myhouse)) ''sys'' ''foo'') = Imported bare_module"
  "mod_part bare_module =
     Some \<lparr>fdoc = PyNone, fcall = Some (\<lambda>kw. Inl (OtherException ''ValueError''))\<rparr>"
  "make_part_model myhouse ''sys'' (part_name_of (HouseModel.name myhouse) ''sys'' ''foo'')
     (module_name_of (basename (local myhouse)) ''sys'' ''foo'') bare_module
     \<lparr>fdoc = PyNone, fcall = Some (\<lambda>kw. Inl (OtherException ''ValueError''))\<rparr> = Inr sys_foo_part"
  by (simp_all add: fresh_manager_def tree2_def scan_defs foo_part_def sys_foo_part_def)

theorem C1_locator_and_name_witness:
  "foo_part \<in> set (parts (committed (snd (import_part_to_db myhouse (fresh_manager tree2))))) \<and>
   module_name foo_part = ''myhouse.part.sg.foo.part'' \<and>
   PartModel.name foo_part = ''myhouse.sg.foo'' \<and>
   sys_foo_part \<in> set (parts (committed (snd (import_part_to_db myhouse (fresh_manager tree2))))) \<and>
   module_name sys_foo_part = ''myhouse.sys.foo.part'' \<and>
   PartModel.name sys_foo_part = ''myhouse.sys.foo''"
proof -
  let ?x = "fresh_manager tree2"
  let ?x' = "snd (import_part_to_db myhouse ?x)"
  have run: "import_part_to_db myhouse ?x = (Inr (), ?x')"
    by (simp add: tree2_scan)
  note sg = C1_locator_and_name [OF fresh_clean run tree2_lists(1) tree2_lists(2) tree2_lists(4)
      tree2_lists(6) tree2_lists(7) tree2_lists(8)]
  note sys = C1_locator_and_name [OF fresh_clean run tree2_lists(1) tree2_lists(3) tree2_lists(5)
      tree2_lists(6) tree2_lists(7) tree2_lists(8)]
  have b: "basename (local myhouse) = ''myhouse''" "HouseModel.name myhouse = ''myhouse''"
    by (simp_all add: myhouse_def basename_def)
  note sg5 = sg [THEN conjunct2, THEN conjunct2, THEN conjunct2, THEN conjunct2, THEN conjunct1,
      THEN spec, THEN spec, THEN spec, THEN mp,
      OF conjI [OF tree2_builds(1) conjI [OF tree2_builds(2) tree2_builds(3)]]]
  note sys5 = sys [THEN conjunct2, THEN conjunct2, THEN conjunct2, THEN conjunct2, THEN conjunct1,
      THEN spec, THEN spec, THEN spec, THEN mp,
      OF conjI [OF tree2_builds(4) conjI [OF tree2_builds(5) tree2_builds(6)]]]
  from sg5 have r1: "foo_part \<in> set (parts (committed ?x')) \<and>
      module_name foo_part = module_name_of (basename (local myhouse)) ''sg'' ''foo'' \<and>
      PartModel.name foo_part = part_name_of (HouseModel.name myhouse) ''sg'' ''foo''" .
  from sys5 have r2: "sys_foo_part \<in> set (parts (committed ?x')) \<and>
      module_name sys_foo_part = module_name_of (basename (local myhouse)) ''sys'' ''foo'' \<and>
      PartModel.name sys_foo_part = part_name_of (HouseModel.name myhouse) ''sys'' ''foo''" .
  from r1 r2 show ?thesis
    by (simp add: module_name_of_def part_name_of_def b)
qed










end
